theory Spec2Isabelle
  imports Main "HOL-Library.Multiset"
begin

unbundle bit_operations_syntax

section \<open>Python values used by the generator\<close>

text \<open>
  The exceptions that the modelled code can raise. \<open>RuntimeError c\<close> carries
  \<open>exception.args[0]\<close>, the status code of the native call that failed.
\<close>

datatype error =
    RuntimeError int
  | NotImplementedError
  | KeyError
  | TypeError
  | ValueError
  | AttributeError
  | InvalidWWN
  | MalformedRecord

text \<open>
  A Python \<open>dict\<close> is kept as an association list in insertion order with
  distinct keys: storing under a key that is already there replaces the value
  in place, storing under a new key appends.
\<close>

fun dict_setitem :: "'k \<Rightarrow> 'v \<Rightarrow> ('k \<times> 'v) list \<Rightarrow> ('k \<times> 'v) list" where
  "dict_setitem k v [] = [(k, v)]"
| "dict_setitem k v ((k', v') # d) =
     (if k' = k then (k', v) # d else (k', v') # dict_setitem k v d)"

definition dict_literal :: "('k \<times> 'v) list \<Rightarrow> ('k \<times> 'v) list" where
  "dict_literal kvs = foldl (\<lambda>d kv. dict_setitem (fst kv) (snd kv) d) [] kvs"

definition dict_getitem :: "('k \<times> 'v) list \<Rightarrow> 'k \<Rightarrow> error + 'v" where
  "dict_getitem d k = (case map_of d k of None \<Rightarrow> Inl KeyError | Some v \<Rightarrow> Inr v)"

definition dict_get :: "('k \<times> 'v) list \<Rightarrow> 'k \<Rightarrow> 'v \<Rightarrow> 'v" where
  "dict_get d k dflt = (case map_of d k of None \<Rightarrow> dflt | Some v \<Rightarrow> v)"

definition dict_keys :: "('k \<times> 'v) list \<Rightarrow> 'k list" where
  "dict_keys d = map fst d"

text \<open>\<open>str(number)\<close> for a Python integer: decimal digits, a minus sign when negative.\<close>

definition digit_char :: "nat \<Rightarrow> char" where
  "digit_char d = ''0123456789'' ! d"

fun str_nat :: "nat \<Rightarrow> string" where
  "str_nat n = (if n < 10 then [digit_char n] else str_nat (n div 10) @ [digit_char (n mod 10)])"

declare str_nat.simps [simp del]

definition py_str :: "int \<Rightarrow> string" where
  "py_str i = (if i < 0 then CHR ''-'' # str_nat (nat (- i)) else str_nat (nat i))"

section \<open>The constants of the \<open>headers\<close> module\<close>

text \<open>
  The module \<open>headers\<close> is imported by the generator and supplies the numeric
  constants of the native interface and the dictionary \<open>HBA_PORTTYPE\<close>, whose
  keys are the decimal strings of the port type codes. Their values are
  parameters of the model: every function below takes the record \<open>h\<close> of
  constants it reads.
\<close>

record headers =
  HBA_STATUS_ERROR :: int
  HBA_STATUS_ERROR_NOT_SUPPORTED :: int
  HBA_STATUS_ERROR_ILLEGAL_WWN :: int
  HBA_STATUS_ERROR_MORE_DATA :: int
  HBA_PORTSPEED_UNKNOWN :: int
  HBA_PORTSPEED_1GBIT :: int
  HBA_PORTSPEED_2GBIT :: int
  HBA_PORTSPEED_10GBIT :: int
  HBA_PORTSPEED_4GBIT :: int
  HBA_PORTSPEED_8GBIT :: int
  HBA_PORTSPEED_16GBIT :: int
  HBA_PORTSPEED_32GBIT :: int
  HBA_PORTSPEED_20GBIT :: int
  HBA_PORTSPEED_40GBIT :: int
  HBA_PORTSPEED_NOT_NEGOTIATED :: int
  HBA_PORTSTATE_UNKNOWN :: int
  HBA_PORTSTATE_ONLINE :: int
  HBA_PORTSTATE_OFFLINE :: int
  HBA_PORTSTATE_BYPASSED :: int
  HBA_PORTSTATE_DIAGNOSTICS :: int
  HBA_PORTSTATE_LINKDOWN :: int
  HBA_PORTSTATE_ERROR :: int
  HBA_PORTSTATE_LOOPBACK :: int
  HBA_PORTTYPE :: "(string \<times> string) list"

text \<open>
  One assignment of the constants, with the numbering of the HBA API standard
  and a port type table that has an entry for each port type code of that
  standard (there is none for code 4), used where a statement is evaluated on
  concrete constants.
\<close>

definition std_headers :: headers where
  "std_headers = \<lparr>
     HBA_STATUS_ERROR = 1,
     HBA_STATUS_ERROR_NOT_SUPPORTED = 2,
     HBA_STATUS_ERROR_ILLEGAL_WWN = 5,
     HBA_STATUS_ERROR_MORE_DATA = 7,
     HBA_PORTSPEED_UNKNOWN = 0,
     HBA_PORTSPEED_1GBIT = 1,
     HBA_PORTSPEED_2GBIT = 2,
     HBA_PORTSPEED_10GBIT = 4,
     HBA_PORTSPEED_4GBIT = 8,
     HBA_PORTSPEED_8GBIT = 16,
     HBA_PORTSPEED_16GBIT = 32,
     HBA_PORTSPEED_32GBIT = 64,
     HBA_PORTSPEED_20GBIT = 128,
     HBA_PORTSPEED_40GBIT = 256,
     HBA_PORTSPEED_NOT_NEGOTIATED = 32768,
     HBA_PORTSTATE_UNKNOWN = 1,
     HBA_PORTSTATE_ONLINE = 2,
     HBA_PORTSTATE_OFFLINE = 3,
     HBA_PORTSTATE_BYPASSED = 4,
     HBA_PORTSTATE_DIAGNOSTICS = 5,
     HBA_PORTSTATE_LINKDOWN = 6,
     HBA_PORTSTATE_ERROR = 7,
     HBA_PORTSTATE_LOOPBACK = 8,
     HBA_PORTTYPE =
       [(''1'', ''Unknown''), (''2'', ''Other''), (''3'', ''Not present''),
        (''5'', ''N_Port''), (''6'', ''NL_Port''), (''7'', ''FL_Port''),
        (''8'', ''F_Port''), (''9'', ''E_Port''), (''10'', ''G_Port''),
        (''20'', ''L_Port''), (''21'', ''PTP'')] \<rparr>"

section \<open>Enumeration translators\<close>

text \<open>\<open>headers.HBA_PORTTYPE[str(number)]\<close>: a subscript, so a missing key is a \<open>KeyError\<close>.\<close>

definition translate_port_type :: "headers \<Rightarrow> int \<Rightarrow> error + string" where
  "translate_port_type h number = dict_getitem (HBA_PORTTYPE h) (py_str number)"

definition port_speed_translation :: "headers \<Rightarrow> (int \<times> int) list" where
  "port_speed_translation h = dict_literal
     [(HBA_PORTSPEED_UNKNOWN h, 0),
      (HBA_PORTSPEED_1GBIT h, 1),
      (HBA_PORTSPEED_2GBIT h, 2),
      (HBA_PORTSPEED_10GBIT h, 10),
      (HBA_PORTSPEED_4GBIT h, 4),
      (HBA_PORTSPEED_8GBIT h, 8),
      (HBA_PORTSPEED_16GBIT h, 16),
      (HBA_PORTSPEED_32GBIT h, 32),
      (HBA_PORTSPEED_20GBIT h, 20),
      (HBA_PORTSPEED_40GBIT h, 40),
      (HBA_PORTSPEED_NOT_NEGOTIATED h, 0)]"

definition translate_port_speed :: "headers \<Rightarrow> int \<Rightarrow> int" where
  "translate_port_speed h source = dict_get (port_speed_translation h) source 0"

text \<open>The entries of the dictionary literal of \<open>translate_port_supported_speeds\<close>.\<close>

definition supported_speeds_entries :: "headers \<Rightarrow> (int \<times> int) list" where
  "supported_speeds_entries h =
     [(HBA_PORTSPEED_1GBIT h, 1),
      (HBA_PORTSPEED_2GBIT h, 2),
      (HBA_PORTSPEED_10GBIT h, 10),
      (HBA_PORTSPEED_4GBIT h, 4),
      (HBA_PORTSPEED_8GBIT h, 8),
      (HBA_PORTSPEED_16GBIT h, 16),
      (HBA_PORTSPEED_32GBIT h, 32),
      (HBA_PORTSPEED_20GBIT h, 20),
      (HBA_PORTSPEED_40GBIT h, 40)]"

text \<open>
  The loop \<open>for key in keys: if key & source: result.append(translation[key]);
  source -= key\<close>, with the mask and the result list threaded through.
\<close>

fun speeds_loop :: "(int \<times> int) list \<Rightarrow> int list \<Rightarrow> int \<Rightarrow> int list \<Rightarrow> error + int list" where
  "speeds_loop translation [] source result = Inr result"
| "speeds_loop translation (key # keys) source result =
     (if key AND source \<noteq> 0
      then (case dict_getitem translation key of
              Inl e \<Rightarrow> Inl e
            | Inr v \<Rightarrow> speeds_loop translation keys (source - key) (result @ [v]))
      else speeds_loop translation keys source result)"

definition translate_port_supported_speeds :: "headers \<Rightarrow> int \<Rightarrow> error + int list" where
  "translate_port_supported_speeds h source =
     (let translation = dict_literal (supported_speeds_entries h);
          keys = rev (sort (dict_keys translation))
      in case speeds_loop translation keys source [] of
           Inl e \<Rightarrow> Inl e
         | Inr result \<Rightarrow> Inr (sort result))"

text \<open>
  The same decoding in the words of the specification: walk the known flags
  from the highest value to the lowest, take the Gbit/s value of each flag
  present in the mask and subtract the flag, and sort the values.
\<close>

fun spec_walk :: "(int \<times> int) list \<Rightarrow> int \<Rightarrow> int list" where
  "spec_walk [] bits = []"
| "spec_walk ((flag, gbit) # rest) bits =
     (if flag AND bits \<noteq> 0 then gbit # spec_walk rest (bits - flag) else spec_walk rest bits)"

definition spec_supported_speeds :: "headers \<Rightarrow> int \<Rightarrow> int list" where
  "spec_supported_speeds h bits =
     sort (spec_walk (rev (sort_key fst (supported_speeds_entries h))) bits)"

text \<open>
  The speed flags of the native interface are single bits of a 32-bit field,
  one bit per speed. The constants are parameters, so this is a condition on
  them.
\<close>

definition single_bit_flag :: "int \<Rightarrow> bool" where
  "single_bit_flag k = (k \<in> set (map (\<lambda>n. 2 ^ n) [0..<32]))"

definition speed_flags_wf :: "headers \<Rightarrow> bool" where
  "speed_flags_wf h =
     (distinct (map fst (supported_speeds_entries h)) \<and>
      list_all single_bit_flag (map fst (supported_speeds_entries h)))"

definition translate_port_state :: "headers \<Rightarrow> int \<Rightarrow> error + string option" where
  "translate_port_state h source = dict_getitem (dict_literal
     [(HBA_PORTSTATE_UNKNOWN h, None),
      (HBA_PORTSTATE_ONLINE h, Some ''online''),
      (HBA_PORTSTATE_OFFLINE h, Some ''offline''),
      (HBA_PORTSTATE_BYPASSED h, Some ''bypassed''),
      (HBA_PORTSTATE_DIAGNOSTICS h, Some ''diagnostics''),
      (HBA_PORTSTATE_LINKDOWN h, Some ''link down''),
      (HBA_PORTSTATE_ERROR h, Some ''error''),
      (HBA_PORTSTATE_LOOPBACK h, Some ''lookback'')]) source"


section \<open>Strings and bytes\<close>

text \<open>
  The string methods the generator calls, on byte strings of ASCII characters:
  \<open>in\<close> (substring test), \<open>startswith\<close>, \<open>replace\<close>, \<open>split\<close> on one
  separator character, \<open>isupper\<close>, \<open>capitalize\<close> and \<open>strip\<close>.
\<close>

fun py_in :: "string \<Rightarrow> string \<Rightarrow> bool" where
  "py_in p [] = (p = [])"
| "py_in p (c # cs) = (take (length p) (c # cs) = p \<or> py_in p cs)"

definition startswith :: "string \<Rightarrow> string \<Rightarrow> bool" where
  "startswith s p = (take (length p) s = p)"

function py_replace :: "string \<Rightarrow> string \<Rightarrow> string \<Rightarrow> string" where
  "py_replace old new [] = []"
| "py_replace old new (c # cs) =
     (if old \<noteq> [] \<and> take (length old) (c # cs) = old
      then new @ py_replace old new (drop (length old) (c # cs))
      else c # py_replace old new cs)"
  by pat_completeness auto
termination
  by (relation "measure (\<lambda>(old, new, s). length s)") auto

fun py_split :: "char \<Rightarrow> string \<Rightarrow> string list" where
  "py_split sep [] = [[]]"
| "py_split sep (c # cs) =
     (if c = sep then [] # py_split sep cs
      else (case py_split sep cs of [] \<Rightarrow> [[c]] | w # ws \<Rightarrow> (c # w) # ws))"

definition lowercase_letters :: string where
  "lowercase_letters = ''abcdefghijklmnopqrstuvwxyz''"

definition uppercase_letters :: string where
  "uppercase_letters = ''ABCDEFGHIJKLMNOPQRSTUVWXYZ''"

definition py_upper_char :: "char \<Rightarrow> char" where
  "py_upper_char c =
     (case map_of (zip lowercase_letters uppercase_letters) c of None \<Rightarrow> c | Some u \<Rightarrow> u)"

definition py_lower_char :: "char \<Rightarrow> char" where
  "py_lower_char c =
     (case map_of (zip uppercase_letters lowercase_letters) c of None \<Rightarrow> c | Some l \<Rightarrow> l)"

text \<open>\<open>isupper\<close>: at least one cased character and no lowercase one.\<close>

definition isupper :: "string \<Rightarrow> bool" where
  "isupper s = (list_ex (\<lambda>c. c \<in> set uppercase_letters) s \<and>
                \<not> list_ex (\<lambda>c. c \<in> set lowercase_letters) s)"

text \<open>\<open>capitalize\<close>: the first character in upper case, all the others in lower case.\<close>

definition capitalize :: "string \<Rightarrow> string" where
  "capitalize s = (case s of [] \<Rightarrow> [] | c # cs \<Rightarrow> py_upper_char c # map py_lower_char cs)"

definition py_strip :: "char \<Rightarrow> string \<Rightarrow> string" where
  "py_strip c s = rev (dropWhile (\<lambda>x. x = c) (rev (dropWhile (\<lambda>x. x = c) s)))"

definition is_digit :: "char \<Rightarrow> bool" where
  "is_digit c = (c \<in> set ''0123456789'')"

definition digit_val :: "char \<Rightarrow> nat" where
  "digit_val c =
     (case map_of (zip ''0123456789'' [0, 1, 2, 3, 4, 5, 6, 7, 8, 9]) c of
        None \<Rightarrow> 0 | Some v \<Rightarrow> v)"

text \<open>\<open>int(s)\<close> on a non-empty run of decimal digits.\<close>

definition int_base10 :: "string \<Rightarrow> int" where
  "int_base10 s = int (foldl (\<lambda>a c. 10 * a + digit_val c) 0 s)"

definition hex_digits :: string where
  "hex_digits = ''0123456789abcdef''"

definition hex_val :: "char \<Rightarrow> nat" where
  "hex_val c =
     (case map_of (zip hex_digits [0, 1, 2, 3, 4, 5, 6, 7, 8, 9, 10, 11, 12, 13, 14, 15]) c of
        None \<Rightarrow> 0 | Some v \<Rightarrow> v)"

text \<open>\<open>int(s, 16)\<close> on a string of lowercase hexadecimal digits.\<close>

definition int_base16 :: "string \<Rightarrow> int" where
  "int_base16 s = int (foldl (\<lambda>a c. 16 * a + hex_val c) 0 s)"

text \<open>\<open>binascii.hexlify\<close>: two lowercase hexadecimal digits per byte, high nibble first.\<close>

definition hexlify :: "nat list \<Rightarrow> string" where
  "hexlify bs = concat (map (\<lambda>b. [hex_digits ! (b div 16), hex_digits ! (b mod 16)]) bs)"

text \<open>The inverse reading, used to state that the encoding loses nothing.\<close>

fun unhexlify :: "string \<Rightarrow> nat list" where
  "unhexlify (a # b # cs) = (16 * hex_val a + hex_val b) # unhexlify cs"
| "unhexlify cs = []"

section \<open>World Wide Names\<close>

text \<open>
  A raw attribute as the decoder hands it over: absent (\<open>None\<close>, the default of
  \<open>getattr\<close>), a sequence of integers, or a string.
\<close>

datatype raw = RawNone | RawList "int list" | RawStr string

text \<open>
  The value type \<open>WWN\<close> of \<open>infi.dtypes.wwn\<close> is an external collaborator. It
  keeps the 16 hexadecimal digits of the address in \<open>_address\<close> and compares
  by that address. Its constructor takes up to 16 hexadecimal digits, pads a
  shorter name with zeros on the left, and rejects the empty string and every
  other string.
\<close>

datatype WWN = WWN (address: string)

definition WWN_init :: "string \<Rightarrow> error + WWN" where
  "WWN_init s =
     (if s \<noteq> [] \<and> length s \<le> 16 \<and> list_all (\<lambda>c. c \<in> set hex_digits) s
      then Inr (WWN (replicate (16 - length s) (CHR ''0'') @ s))
      else Inl InvalidWWN)"

text \<open>
  \<open>b''.join([chr(item) if not PY3 else bytes([item]) for item in source])\<close>:
  iterating \<open>None\<close> is a \<open>TypeError\<close>, so is \<open>chr\<close> or \<open>bytes([.])\<close> of a
  character, and an integer outside \<open>range(256)\<close> is a \<open>ValueError\<close>.
\<close>

fun join_items :: "raw \<Rightarrow> error + nat list" where
  "join_items RawNone = Inl TypeError"
| "join_items (RawStr s) = (if s = [] then Inr [] else Inl TypeError)"
| "join_items (RawList xs) =
     (if list_all (\<lambda>x. 0 \<le> x \<and> x < 256) xs then Inr (map nat xs) else Inl ValueError)"

text \<open>
  \<open>translate_wwn\<close>. The test \<open>source != ''\<close> compares the joined bytes with a
  \<open>str\<close>: under Python 2 it is false exactly for the empty byte string, under
  Python 3 a \<open>bytes\<close> value never equals a \<open>str\<close> and the test is always true.
\<close>

definition ne_empty_str :: "bool \<Rightarrow> nat list \<Rightarrow> bool" where
  "ne_empty_str py3 bs = (if py3 then True else bs \<noteq> [])"

definition translate_wwn :: "bool \<Rightarrow> raw \<Rightarrow> error + WWN" where
  "translate_wwn py3 source =
     (case join_items source of
        Inl e \<Rightarrow> Inl e
      | Inr bs \<Rightarrow> WWN_init (hexlify (if ne_empty_str py3 bs then bs else replicate 8 0)))"


section \<open>Ports and their attributes\<close>

definition and_then :: "error + 'a \<Rightarrow> ('a \<Rightarrow> error + 'b) \<Rightarrow> error + 'b" where
  "and_then r f = (case r of Inl e \<Rightarrow> Inl e | Inr x \<Rightarrow> f x)"

text \<open>
  The decoded native records. A field that \<open>get_port_object\<close> reads with the
  default \<open>None\<close> is a \<open>raw\<close> value or an option; the adapter's node name is
  called \<open>AdapterNodeWWN\<close> here because the port record has a \<open>NodeWWN\<close> too.
\<close>

record port_attributes =
  NodeWWN :: raw
  PortWWN :: raw
  PortFcId :: int
  PortType :: int
  PortState :: int
  PortSpeed :: int
  PortSymbolicName :: string
  OSDeviceName :: string
  PortSuggestedSpeed :: int
  PortMaxFrameSize :: "int option"
  FabricName :: raw
  NumberOfDiscoveredPorts :: nat

record adapter_attributes =
  AdapterNodeWWN :: raw
  DriverName :: string
  DriverVersion :: string
  Manufacturer :: string
  SerialNumber :: string
  Model :: string
  ModelDescription :: string
  HardwareVersion :: string
  FirmwareVersion :: string
  OptionROMVersion :: string
  NumberOfPorts :: nat

type_synonym stats = "(string \<times> int) list"

record HBA_FcpScsiEntryV2 =
  ScsiBusNumber :: int
  ScsiTargetNumber :: int
  ScsiOSLun :: int
  ScsiOSDeviceName :: string
  FcId_PortWWN :: raw

record HBA_FCPTargetMappingV2 =
  NumberOfEntries :: nat
  entry :: "HBA_FcpScsiEntryV2 list"

text \<open>
  Modelled from the spec: the class \<open>Port\<close> is not part of the generator
  module; a fresh \<open>Port()\<close> has the host/channel/target triple \<open>(-1, -1, -1)\<close>.
\<close>

record Port =
  node_wwn :: WWN
  port_wwn :: WWN
  port_fcid :: int
  port_type :: string
  port_state :: "string option"
  port_speed :: int
  port_symbolic_name :: string
  os_device_name :: string
  port_supported_speeds :: "int list"
  port_max_frame_size :: "int option"
  fabric_name :: WWN
  driver_name :: string
  driver_version :: string
  manufacturer :: string
  serial_number :: string
  model :: string
  model_description :: string
  hardware_version :: string
  firmware_version :: string
  option_rom_version :: string
  hct :: "int \<times> int \<times> int"

record LocalPort = Port +
  discovered_ports :: "Port list"
  statistics :: stats
  all_port_mappings :: HBA_FCPTargetMappingV2

text \<open>Truth value of a raw attribute, for the \<open>or\<close> between the two node names.\<close>

fun truthy :: "raw \<Rightarrow> bool" where
  "truthy RawNone = False"
| "truthy (RawList xs) = (xs \<noteq> [])"
| "truthy (RawStr s) = (s \<noteq> [])"

definition py_or :: "raw \<Rightarrow> raw \<Rightarrow> raw" where
  "py_or a b = (if truthy a then a else b)"

definition adapter_string :: "adapter_attributes option \<Rightarrow> (adapter_attributes \<Rightarrow> string) \<Rightarrow> string" where
  "adapter_string adapter_attributes field =
     py_strip (CHR 0x00) (case adapter_attributes of None \<Rightarrow> [] | Some a \<Rightarrow> field a)"

definition get_port_object ::
  "headers \<Rightarrow> bool \<Rightarrow> adapter_attributes option \<Rightarrow> port_attributes \<Rightarrow> error + Port" where
  "get_port_object h py3 adapter_attributes port_attributes =
     and_then (translate_wwn py3
        (py_or (case adapter_attributes of None \<Rightarrow> RawNone | Some a \<Rightarrow> AdapterNodeWWN a)
               (NodeWWN port_attributes))) (\<lambda>node.
     and_then (translate_wwn py3 (PortWWN port_attributes)) (\<lambda>port.
     and_then (translate_port_type h (PortType port_attributes)) (\<lambda>type.
     and_then (translate_port_state h (PortState port_attributes)) (\<lambda>state.
     and_then (translate_port_supported_speeds h (PortSuggestedSpeed port_attributes)) (\<lambda>speeds.
     and_then (translate_wwn py3 (FabricName port_attributes)) (\<lambda>fabric.
       Inr \<lparr> node_wwn = node,
             port_wwn = port,
             port_fcid = PortFcId port_attributes,
             port_type = type,
             port_state = state,
             port_speed = translate_port_speed h (PortSpeed port_attributes),
             port_symbolic_name = py_strip (CHR 0x00) (PortSymbolicName port_attributes),
             os_device_name = py_strip (CHR 0x00) (OSDeviceName port_attributes),
             port_supported_speeds = speeds,
             port_max_frame_size = PortMaxFrameSize port_attributes,
             fabric_name = fabric,
             driver_name = adapter_string adapter_attributes DriverName,
             driver_version = adapter_string adapter_attributes DriverVersion,
             manufacturer = adapter_string adapter_attributes Manufacturer,
             serial_number = adapter_string adapter_attributes SerialNumber,
             model = adapter_string adapter_attributes Model,
             model_description = adapter_string adapter_attributes ModelDescription,
             hardware_version = adapter_string adapter_attributes HardwareVersion,
             firmware_version = adapter_string adapter_attributes FirmwareVersion,
             option_rom_version = adapter_string adapter_attributes OptionROMVersion,
             hct = (-1, -1, -1) \<rparr>))))))"

section \<open>The generator\<close>

definition WELL_KNOWN_FC_ADDRESSES :: "int list" where
  "WELL_KNOWN_FC_ADDRESSES =
     [0xFFFFF5, 0xFFFFF6, 0xFFFFF7, 0xFFFFF8, 0xFFFFF9,
      0xFFFFFA, 0xFFFFFB, 0xFFFFFC, 0xFFFFFD, 0xFFFFFE]"

text \<open>
  What the generator reads from its surroundings besides the native calls: the
  constants, the Python major version (\<open>PY3\<close>), the platform string, and, from
  the enclosing package, the list \<open>FC_PORT_STATISTICS\<close> of canonical counter
  names and the counters of a fresh \<open>PortStatistics()\<close>.
\<close>

record config =
  hdr :: headers
  PY3 :: bool
  platform_string :: string
  FC_PORT_STATISTICS :: "string list"
  PortStatistics_init :: stats

text \<open>
  Modelled from the spec: the module \<open>c_api\<close> wraps the native service, which
  signals failure via a status code; a failed call raises \<open>RuntimeError\<close> with
  the code as \<open>args[0]\<close>, and the buffer keeps what the service wrote. A buffer
  is identified with the record it decodes to. The mapping service answers the
  \<open>k\<close>-th call on a request buffer; the log lists the buffers passed so far.
\<close>

datatype response = Ok HBA_FCPTargetMappingV2 | Failed int HBA_FCPTargetMappingV2

type_synonym mapping_service = "nat \<Rightarrow> HBA_FCPTargetMappingV2 \<Rightarrow> response"

definition HBA_GetFcpTargetMappingV2 ::
  "mapping_service \<Rightarrow> HBA_FCPTargetMappingV2 list \<Rightarrow> HBA_FCPTargetMappingV2 \<Rightarrow>
   response \<times> HBA_FCPTargetMappingV2 list" where
  "HBA_GetFcpTargetMappingV2 svc log buff = (svc (length log) buff, log @ [buff])"

text \<open>The native answers for one local port, and for one adapter.\<close>

record port_env =
  port_attributes_result :: "error + port_attributes"
  remote_port_attributes_result :: "nat \<Rightarrow> error + port_attributes"
  port_statistics_result :: "error + stats"
  fc4_statistics_result :: "error + stats"
  mapping_calls :: mapping_service

record adapter_env =
  adapter_attributes_result :: "error + adapter_attributes"
  port_envs :: "nat \<Rightarrow> port_env"

subsection \<open>Remote ports\<close>

fun get_remote_ports_loop ::
  "headers \<Rightarrow> bool \<Rightarrow> (nat \<Rightarrow> error + port_attributes) \<Rightarrow> nat list \<Rightarrow> Port list \<Rightarrow>
   error + Port list" where
  "get_remote_ports_loop h py3 fetch [] remote_ports = Inr remote_ports"
| "get_remote_ports_loop h py3 fetch (remote_port_index # rest) remote_ports =
     (case fetch remote_port_index of
        Inl e \<Rightarrow> Inl e
      | Inr remote_port_attributes \<Rightarrow>
          (case get_port_object h py3 None remote_port_attributes of
             Inl e \<Rightarrow> Inl e
           | Inr remote_port \<Rightarrow>
               if port_fcid remote_port \<in> set WELL_KNOWN_FC_ADDRESSES
               then get_remote_ports_loop h py3 fetch rest remote_ports
               else if port_state remote_port = Some ''offline''
               then get_remote_ports_loop h py3 fetch rest remote_ports
               else get_remote_ports_loop h py3 fetch rest (remote_ports @ [remote_port])))"

definition get_remote_ports ::
  "headers \<Rightarrow> bool \<Rightarrow> (nat \<Rightarrow> error + port_attributes) \<Rightarrow> nat \<Rightarrow> error + Port list" where
  "get_remote_ports h py3 fetch number_of_remote_ports =
     get_remote_ports_loop h py3 fetch [0..<number_of_remote_ports] []"

text \<open>
  Every discovered remote port decoded in index order, with no filter: the
  list that the filter of \<open>get_remote_ports\<close> is stated against.
\<close>

fun all_remote_ports ::
  "headers \<Rightarrow> bool \<Rightarrow> (nat \<Rightarrow> error + port_attributes) \<Rightarrow> nat list \<Rightarrow> error + Port list" where
  "all_remote_ports h py3 fetch [] = Inr []"
| "all_remote_ports h py3 fetch (i # rest) =
     and_then (fetch i) (\<lambda>attributes.
     and_then (get_port_object h py3 None attributes) (\<lambda>remote_port.
     and_then (all_remote_ports h py3 fetch rest) (\<lambda>others. Inr (remote_port # others))))"

definition kept :: "Port \<Rightarrow> bool" where
  "kept p = (port_fcid p \<notin> set WELL_KNOWN_FC_ADDRESSES \<and> port_state p \<noteq> Some ''offline'')"

subsection \<open>Host number of the local port\<close>

text \<open>
  \<open>_populate_local_port_hct\<close>: the pattern \<open>(\d+)$\<close> is searched in the device
  name stripped of colons; \<open>$\<close> matches at the end and before a final newline,
  so the match is the longest run of digits that ends there. The name comes
  out of \<open>strip\<close> in \<open>get_port_object\<close> and is never \<open>None\<close>.
\<close>

definition host_digits :: "string \<Rightarrow> string" where
  "host_digits name =
     (let s = py_strip (CHR '':'') name;
          s' = (if s \<noteq> [] \<and> last s = CHR 0x0A then butlast s else s)
      in rev (takeWhile is_digit (rev s')))"

definition populate_local_port_hct :: "Port \<Rightarrow> Port" where
  "populate_local_port_hct port =
     (let host = host_digits (os_device_name port)
      in if host = [] then port\<lparr>hct := (-1, -1, -1)\<rparr>
         else port\<lparr>hct := (int_base10 host, -1, -1)\<rparr>)"


subsection \<open>Statistics\<close>

definition getattr_stat :: "stats \<Rightarrow> string \<Rightarrow> error + int" where
  "getattr_stat r name = (case map_of r name of None \<Rightarrow> Inl AttributeError | Some v \<Rightarrow> Inr v)"

definition hba_port_stat_name :: "string \<Rightarrow> string" where
  "hba_port_stat_name name =
     (let alternative_name =
            py_replace ''crc'' ''CRC'' (py_replace ''lip'' ''LIP'' (py_replace ''nos'' ''NOS'' name))
      in concat (map (\<lambda>item. if isupper item then item else capitalize item)
                     (py_split (CHR ''_'') alternative_name)))"

definition hba_fcp4_stat_name :: "string \<Rightarrow> string" where
  "hba_fcp4_stat_name name =
     concat (map capitalize (py_split (CHR ''_'') (py_replace ''fcp_'' [] name)))"

definition merge_hba_port_stat :: "stats option \<Rightarrow> stats \<Rightarrow> string \<Rightarrow> error + stats" where
  "merge_hba_port_stat hba_port_stats port_statistics name =
     (let hbaapi_name = hba_port_stat_name name
      in case hba_port_stats of
           None \<Rightarrow> Inr (dict_setitem name (-1) port_statistics)
         | Some r \<Rightarrow> and_then (getattr_stat r hbaapi_name)
                       (\<lambda>v. Inr (dict_setitem name v port_statistics)))"

definition merge_hba_fcp4_stat :: "stats option \<Rightarrow> stats \<Rightarrow> string \<Rightarrow> error + stats" where
  "merge_hba_fcp4_stat hba_fc4_stats port_statistics name =
     (let hbaapi_name = hba_fcp4_stat_name name
      in case hba_fc4_stats of
           None \<Rightarrow> Inr (dict_setitem name (-1) port_statistics)
         | Some r \<Rightarrow> and_then (getattr_stat r hbaapi_name)
                       (\<lambda>v. Inr (dict_setitem name v port_statistics)))"

text \<open>
  \<open>_merge_statistics\<close>: the loop over \<open>FC_PORT_STATISTICS\<close>, which is passed
  as the list \<open>names\<close>; the record being filled is threaded through.
\<close>

fun merge_statistics ::
  "string list \<Rightarrow> stats \<Rightarrow> stats option \<Rightarrow> stats option \<Rightarrow> error + stats" where
  "merge_statistics [] port_statistics hba_port_stats hba_fc4_stats = Inr port_statistics"
| "merge_statistics (name # names) port_statistics hba_port_stats hba_fc4_stats =
     and_then (if startswith name ''fcp_''
               then merge_hba_fcp4_stat hba_fc4_stats port_statistics name
               else merge_hba_port_stat hba_port_stats port_statistics name)
       (\<lambda>port_statistics'. merge_statistics names port_statistics' hba_port_stats hba_fc4_stats)"

text \<open>
  The name-mangling rule in the words of the specification, to compare with
  the two functions above: strip the prefix and capitalize each word; or apply
  the three overrides and capitalize each word that is not all upper case.
\<close>

definition spec_override :: "string \<Rightarrow> string" where
  "spec_override name =
     py_replace ''crc'' ''CRC'' (py_replace ''lip'' ''LIP'' (py_replace ''nos'' ''NOS'' name))"

definition spec_link_name :: "string \<Rightarrow> string" where
  "spec_link_name name =
     concat (map (\<lambda>w. if isupper w then w else capitalize w) (py_split (CHR ''_'') (spec_override name)))"

definition spec_fcp_name :: "string \<Rightarrow> string" where
  "spec_fcp_name name =
     concat (map capitalize (py_split (CHR ''_'') (drop (length ''fcp_'') name)))"

text \<open>
  \<open>_get_local_port_statistics\<close>. \<open>NotImplementedError\<close> is a subclass of
  \<open>RuntimeError\<close>, so the first handler catches both.
\<close>

fun is_RuntimeError :: "error \<Rightarrow> bool" where
  "is_RuntimeError (RuntimeError c) = True"
| "is_RuntimeError NotImplementedError = True"
| "is_RuntimeError e = False"

definition get_local_port_statistics :: "config \<Rightarrow> port_env \<Rightarrow> error + stats" where
  "get_local_port_statistics cfg env =
     (let port_statistics = PortStatistics_init cfg
      in case port_statistics_result env of
           Inl e \<Rightarrow> if is_RuntimeError e then Inr port_statistics else Inl e
         | Inr hba_port_stats \<Rightarrow>
             (case fc4_statistics_result env of
                Inl e \<Rightarrow> if is_RuntimeError e
                         then merge_statistics (FC_PORT_STATISTICS cfg) port_statistics
                                (Some hba_port_stats) None
                         else Inl e
              | Inr hba_fc4_stats \<Rightarrow>
                  merge_statistics (FC_PORT_STATISTICS cfg) port_statistics
                    (Some hba_port_stats) (Some hba_fc4_stats)))"

subsection \<open>The mapping table\<close>

definition zero_entry :: HBA_FcpScsiEntryV2 where
  "zero_entry = \<lparr> ScsiBusNumber = 0, ScsiTargetNumber = 0, ScsiOSLun = 0,
                  ScsiOSDeviceName = [], FcId_PortWWN = RawList (replicate 8 0) \<rparr>"

definition build_empty_mappings_struct :: "nat \<Rightarrow> HBA_FCPTargetMappingV2" where
  "build_empty_mappings_struct number_of_elements =
     \<lparr> NumberOfEntries = number_of_elements, entry = replicate number_of_elements zero_entry \<rparr>"

definition create_empty :: HBA_FCPTargetMappingV2 where
  "create_empty = \<lparr> NumberOfEntries = 0, entry = [] \<rparr>"

definition get_local_port_mappings_count ::
  "headers \<Rightarrow> mapping_service \<Rightarrow> HBA_FCPTargetMappingV2 list \<Rightarrow> nat \<times> HBA_FCPTargetMappingV2 list" where
  "get_local_port_mappings_count h svc log =
     (let struct = build_empty_mappings_struct 0;
          (r, log') = HBA_GetFcpTargetMappingV2 svc log struct
      in case r of
           Failed return_code buff \<Rightarrow>
             if return_code = HBA_STATUS_ERROR_MORE_DATA h then (NumberOfEntries buff, log')
             else (0, log')
         | Ok buff \<Rightarrow> (0, log'))"

definition get_local_port_mappings ::
  "headers \<Rightarrow> mapping_service \<Rightarrow> HBA_FCPTargetMappingV2 list \<Rightarrow>
   (error + HBA_FCPTargetMappingV2) \<times> HBA_FCPTargetMappingV2 list" where
  "get_local_port_mappings h svc log =
     (let (number_of_entries, log1) = get_local_port_mappings_count h svc log;
          struct = build_empty_mappings_struct number_of_entries;
          (r, log2) = HBA_GetFcpTargetMappingV2 svc log1 struct
      in case r of
           Failed return_code buff \<Rightarrow>
             (if return_code = HBA_STATUS_ERROR_ILLEGAL_WWN h then Inr create_empty
              else if return_code = HBA_STATUS_ERROR_NOT_SUPPORTED h then Inr create_empty
              else if return_code = HBA_STATUS_ERROR_MORE_DATA h then Inr create_empty
              else if return_code = HBA_STATUS_ERROR h then Inr create_empty
              else Inl (RuntimeError return_code), log2)
         | Ok buff \<Rightarrow> (Inr buff, log2))"

definition get_target_number :: "config \<Rightarrow> HBA_FcpScsiEntryV2 \<Rightarrow> error + int" where
  "get_target_number cfg e =
     (if py_in ''solaris'' (platform_string cfg) \<or> py_in ''aix'' (platform_string cfg)
      then and_then (translate_wwn (PY3 cfg) (FcId_PortWWN e)) (\<lambda>w. Inr (int_base16 (address w)))
      else Inr (ScsiTargetNumber e))"

fun mappings_to_dict_loop ::
  "config \<Rightarrow> HBA_FcpScsiEntryV2 list \<Rightarrow> (WWN \<times> int \<times> int) list \<Rightarrow> error + (WWN \<times> int \<times> int) list" where
  "mappings_to_dict_loop cfg [] result = Inr result"
| "mappings_to_dict_loop cfg (e # rest) result =
     (if FcId_PortWWN e = RawStr []
      then mappings_to_dict_loop cfg rest result
      else and_then (translate_wwn (PY3 cfg) (FcId_PortWWN e)) (\<lambda>key.
           and_then (get_target_number cfg e) (\<lambda>target.
             mappings_to_dict_loop cfg rest (dict_setitem key (ScsiBusNumber e, target) result))))"

definition mappings_to_dict ::
  "config \<Rightarrow> HBA_FCPTargetMappingV2 \<Rightarrow> error + (WWN \<times> int \<times> int) list" where
  "mappings_to_dict cfg mappings = mappings_to_dict_loop cfg (entry mappings) []"

subsection \<open>One local port\<close>

text \<open>
  \<open>_extract_wwn_buffer_from_port_attributes\<close> joins the bytes of the port
  name and decodes them as one 64-bit integer, which fails on fewer than
  eight bytes.
\<close>

definition extract_wwn_buffer_from_port_attributes :: "port_attributes \<Rightarrow> error + nat list" where
  "extract_wwn_buffer_from_port_attributes port_attributes =
     and_then (join_items (PortWWN port_attributes))
       (\<lambda>wwn_string. if length wwn_string < 8 then Inl MalformedRecord else Inr (take 8 wwn_string))"

text \<open>The body of the loop that gives each kept remote port its triple.\<close>

definition assign_hct :: "config \<Rightarrow> int \<times> int \<times> int \<Rightarrow> (WWN \<times> int \<times> int) list \<Rightarrow> Port \<Rightarrow> Port" where
  "assign_hct cfg local_hct port_mappings remote_port =
     (let channel_target =
            (if py_in ''aix'' (platform_string cfg)
             then (0, int_base16 (address (port_wwn remote_port)))
             else dict_get port_mappings (port_wwn remote_port) (-1, -1))
      in remote_port\<lparr>hct := (fst local_hct, channel_target)\<rparr>)"

definition get_local_port :: "config \<Rightarrow> adapter_attributes \<Rightarrow> port_env \<Rightarrow> error + LocalPort" where
  "get_local_port cfg adapter_attributes env =
     and_then (port_attributes_result env) (\<lambda>port_attributes.
     and_then (get_port_object (hdr cfg) (PY3 cfg) (Some adapter_attributes) port_attributes) (\<lambda>port0.
     let port = populate_local_port_hct port0 in
     and_then (extract_wwn_buffer_from_port_attributes port_attributes) (\<lambda>wwn_buffer.
     and_then (get_remote_ports (hdr cfg) (PY3 cfg) (remote_port_attributes_result env)
                 (NumberOfDiscoveredPorts port_attributes)) (\<lambda>remote_ports.
     and_then (get_local_port_statistics cfg env) (\<lambda>port_statistics.
     and_then (fst (get_local_port_mappings (hdr cfg) (mapping_calls env) [])) (\<lambda>mappings.
     and_then (mappings_to_dict cfg mappings) (\<lambda>port_mappings.
          Inr (Port.extend port
                 (LocalPort.fields
                    (map (assign_hct cfg (hct port) port_mappings) remote_ports)
                    port_statistics
                    mappings)))))))))"

subsection \<open>The walk over adapters and ports\<close>

text \<open>
  \<open>_iter_ports\<close> is a generator: the result is the list of ports it yields and
  the exception that ends it, if any. The adapters are those that the library
  has enumerated and opened.
\<close>

fun iter_adapter_ports ::
  "config \<Rightarrow> adapter_attributes \<Rightarrow> (nat \<Rightarrow> port_env) \<Rightarrow> nat list \<Rightarrow> LocalPort list \<times> error option" where
  "iter_adapter_ports cfg adapter_attributes envs [] = ([], None)"
| "iter_adapter_ports cfg adapter_attributes envs (port_index # rest) =
     (case get_local_port cfg adapter_attributes (envs port_index) of
        Inl e \<Rightarrow> ([], Some e)
      | Inr local_port \<Rightarrow>
          (let (ports, r) = iter_adapter_ports cfg adapter_attributes envs rest
           in (local_port # ports, r)))"

fun p_iter_ports :: "config \<Rightarrow> adapter_env list \<Rightarrow> LocalPort list \<times> error option" where
  "p_iter_ports cfg [] = ([], None)"
| "p_iter_ports cfg (adapter # rest) =
     (case adapter_attributes_result adapter of
        Inl e \<Rightarrow> if e = NotImplementedError then p_iter_ports cfg rest else ([], Some e)
      | Inr adapter_attributes \<Rightarrow>
          (case iter_adapter_ports cfg adapter_attributes (port_envs adapter)
                  [0..<NumberOfPorts adapter_attributes] of
             (ports, Some e) \<Rightarrow> (ports, Some e)
           | (ports, None) \<Rightarrow>
               (let (more, r) = p_iter_ports cfg rest in (ports @ more, r))))"

text \<open>
  What one adapter contributes to a scan in which nothing fails but attribute
  reporting: an adapter that raises \<open>NotImplementedError\<close> contributes no
  port, an adapter that reports attributes contributes the local port of each
  of its port indices, in order.
\<close>

definition adapter_yields :: "config \<Rightarrow> adapter_env \<Rightarrow> LocalPort list \<Rightarrow> bool" where
  "adapter_yields cfg adapter ports =
     (case adapter_attributes_result adapter of
        Inl e \<Rightarrow> e = NotImplementedError \<and> ports = []
      | Inr adapter_attributes \<Rightarrow>
          map (\<lambda>port_index. get_local_port cfg adapter_attributes (port_envs adapter port_index))
              [0..<NumberOfPorts adapter_attributes] = map Inr ports)"


section \<open>A concrete scan\<close>

text \<open>
  One adapter that does not implement attribute reporting followed by one
  adapter with a single port. The port sees three remote ports: a target, the
  directory server at a well-known address, and an offline port. The mapping
  service answers the probe with "more data" and a count of one, then returns
  one row for the target.
\<close>

definition example_config :: "string \<Rightarrow> config" where
  "example_config platform =
     \<lparr> hdr = std_headers, PY3 = True, platform_string = platform,
       FC_PORT_STATISTICS = [''rx_frames'', ''fcp_input_requests'', ''nos_count''],
       PortStatistics_init = [] \<rparr>"

definition example_port_attributes :: "int list \<Rightarrow> int \<Rightarrow> int \<Rightarrow> port_attributes" where
  "example_port_attributes wwn fcid state =
     \<lparr> NodeWWN = RawList [0x20, 0, 0, 0, 0xC9, 0, 0, 1],
       PortWWN = RawList wwn,
       PortFcId = fcid,
       PortType = 5,
       PortState = state,
       PortSpeed = 16,
       PortSymbolicName = ''port'',
       OSDeviceName = ''host12'',
       PortSuggestedSpeed = 24,
       PortMaxFrameSize = Some 2048,
       FabricName = RawList [0x10, 0, 0, 0, 0xC9, 0, 0, 2],
       NumberOfDiscoveredPorts = 3 \<rparr>"

definition example_remote :: "nat \<Rightarrow> error + port_attributes" where
  "example_remote i =
     (if i = 0 then Inr (example_port_attributes [0x50, 0, 0, 0, 0, 0, 0, 0x0A] 0x010200 2)
      else if i = 1 then Inr (example_port_attributes [0x50, 0, 0, 0, 0, 0, 0, 0x0B] 0xFFFFFC 2)
      else Inr (example_port_attributes [0x50, 0, 0, 0, 0, 0, 0, 0x0C] 0x010300 3))"

definition example_table :: HBA_FCPTargetMappingV2 where
  "example_table =
     \<lparr> NumberOfEntries = 1,
       entry = [\<lparr> ScsiBusNumber = 0, ScsiTargetNumber = 3, ScsiOSLun = 0,
                  ScsiOSDeviceName = ''disk1'',
                  FcId_PortWWN = RawList [0x50, 0, 0, 0, 0, 0, 0, 0x0A] \<rparr>] \<rparr>"

definition example_service :: mapping_service where
  "example_service k buff =
     (if k = 0 then Failed 7 \<lparr> NumberOfEntries = 1, entry = [] \<rparr> else Ok example_table)"

definition example_port_env :: port_env where
  "example_port_env =
     \<lparr> port_attributes_result = Inr (example_port_attributes [0x21, 0, 0, 0, 0xC9, 0, 0, 1] 0x010100 2),
       remote_port_attributes_result = example_remote,
       port_statistics_result = Inr [(''RxFrames'', 5), (''NOSCount'', 7)],
       fc4_statistics_result = Inl NotImplementedError,
       mapping_calls = example_service \<rparr>"

definition example_adapter_attributes :: adapter_attributes where
  "example_adapter_attributes =
     \<lparr> AdapterNodeWWN = RawList [0x20, 0, 0, 0, 0xC9, 0, 0, 1],
       DriverName = ''drv'', DriverVersion = ''1'', Manufacturer = ''m'', SerialNumber = ''s'',
       Model = ''x'', ModelDescription = ''d'', HardwareVersion = ''h'', FirmwareVersion = ''f'',
       OptionROMVersion = ''o'', NumberOfPorts = 1 \<rparr>"

definition example_unsupported_adapter :: adapter_env where
  "example_unsupported_adapter =
     \<lparr> adapter_attributes_result = Inl NotImplementedError, port_envs = (\<lambda>i. example_port_env) \<rparr>"

definition example_supported_adapter :: adapter_env where
  "example_supported_adapter =
     \<lparr> adapter_attributes_result = Inr example_adapter_attributes,
       port_envs = (\<lambda>i. example_port_env) \<rparr>"

definition example_failing_adapter :: adapter_env where
  "example_failing_adapter =
     \<lparr> adapter_attributes_result = Inl (RuntimeError 1), port_envs = (\<lambda>i. example_port_env) \<rparr>"

definition example_adapters :: "adapter_env list" where
  "example_adapters =
     [example_supported_adapter, example_unsupported_adapter, example_supported_adapter]"

text \<open>
  Constants in which the speed flags overlap: the 10 Gbit flag is 3, the sum
  of the 1 Gbit and 2 Gbit flags.
\<close>

definition overlapping_headers :: headers where
  "overlapping_headers = std_headers \<lparr> HBA_PORTSPEED_10GBIT := 3 \<rparr>"

text \<open>
  Two more mapping services: one whose sized call fails with a given code after
  a "more data" probe, and one whose probe fails with the generic error code
  while the second call succeeds.
\<close>

definition failing_service :: "int \<Rightarrow> mapping_service" where
  "failing_service c k buff =
     (if k = 0 then Failed 7 \<lparr> NumberOfEntries = 1, entry = [] \<rparr>
      else Failed c \<lparr> NumberOfEntries = 1, entry = [] \<rparr>)"

definition probe_fails_service :: mapping_service where
  "probe_fails_service k buff =
     (if k = 0 then Failed 1 \<lparr> NumberOfEntries = 5, entry = [] \<rparr> else Ok example_table)"

section \<open>Dictionaries\<close>

lemma and_then_Inr_iff: "(and_then r f = Inr y) = (\<exists>x. r = Inr x \<and> f x = Inr y)"
  by (cases r) (simp_all add: and_then_def)

lemma map_of_dict_setitem: "map_of (dict_setitem k v d) = (map_of d)(k \<mapsto> v)"
  by (induction d) (auto simp: fun_eq_iff)

lemma setitem_fresh: "k \<notin> fst ` set d \<Longrightarrow> dict_setitem k v d = d @ [(k, v)]"
  by (induction d) auto

lemma foldl_setitem_distinct:
  "distinct (map fst kvs) \<Longrightarrow> fst ` set d \<inter> fst ` set kvs = {} \<Longrightarrow>
   foldl (\<lambda>d kv. dict_setitem (fst kv) (snd kv) d) d kvs = d @ kvs"
proof (induction kvs arbitrary: d)
  case Nil
  then show ?case by simp
next
  case (Cons kv kvs)
  have a: "dict_setitem (fst kv) (snd kv) d = d @ [kv]"
    using Cons.prems(2) by (simp add: setitem_fresh)
  have "foldl (\<lambda>d kv. dict_setitem (fst kv) (snd kv) d) (d @ [kv]) kvs = (d @ [kv]) @ kvs"
    using Cons.prems by (intro Cons.IH) auto
  then show ?case using a by simp
qed

lemma dict_literal_distinct: "distinct (map fst kvs) \<Longrightarrow> dict_literal kvs = kvs"
  using foldl_setitem_distinct [of kvs "[]"] by (simp add: dict_literal_def)

text \<open>In a dictionary literal the last entry for a key is the one that counts.\<close>

lemma map_of_foldl_setitem:
  "map_of (foldl (\<lambda>d kv. dict_setitem (fst kv) (snd kv) d) d kvs) k =
   (case map_of (rev kvs) k of Some v \<Rightarrow> Some v | None \<Rightarrow> map_of d k)"
proof (induction kvs arbitrary: d)
  case Nil
  then show ?case by simp
next
  case (Cons kv kvs)
  show ?case
    by (simp add: Cons.IH map_of_dict_setitem map_add_def split: option.splits)
qed

lemma map_of_dict_literal: "map_of (dict_literal kvs) k = map_of (rev kvs) k"
  by (simp add: dict_literal_def map_of_foldl_setitem split: option.splits)

lemma map_of_dict_literal_None:
  "k \<notin> fst ` set kvs \<Longrightarrow> map_of (dict_literal kvs) k = None"
  by (simp add: map_of_dict_literal map_of_eq_None_iff)

section \<open>Supported speeds\<close>

lemma map_insort_key: "map f (insort_key f x xs) = insort (f x) (map f xs)"
  by (induction xs) auto

lemma map_sort_key: "map f (sort_key f xs) = sort (map f xs)"
  by (induction xs) (auto simp: map_insort_key)

lemma speeds_loop_walk:
  "distinct (map fst t) \<Longrightarrow> set ps \<subseteq> set t \<Longrightarrow>
   speeds_loop t (map fst ps) source acc = Inr (acc @ spec_walk ps source)"
proof (induction ps arbitrary: source acc)
  case Nil
  then show ?case by simp
next
  case (Cons p ps)
  obtain f g where p: "p = (f, g)" by (cases p)
  have "map_of t f = Some g" using Cons.prems p by simp
  then have "dict_getitem t f = Inr g" by (simp add: dict_getitem_def)
  then show ?case using Cons p by simp
qed

lemma keys_dict_setitem: "set (map fst (dict_setitem k v d)) = insert k (set (map fst d))"
proof -
  have "dom (map_of (dict_setitem k v d)) = insert k (dom (map_of d))"
    by (simp add: map_of_dict_setitem)
  then show ?thesis by (simp add: dom_map_of_conv_image_fst)
qed

lemma distinct_keys_setitem: "distinct (map fst d) \<Longrightarrow> distinct (map fst (dict_setitem k v d))"
proof (induction d)
  case Nil
  then show ?case by simp
next
  case (Cons p d)
  have "fst p \<noteq> k \<Longrightarrow> fst p \<notin> set (map fst (dict_setitem k v d))"
    using Cons.prems by (simp only: keys_dict_setitem) auto
  then show ?case using Cons by (cases p) auto
qed

lemma distinct_keys_foldl:
  "distinct (map fst d) \<Longrightarrow>
   distinct (map fst (foldl (\<lambda>d kv. dict_setitem (fst kv) (snd kv) d) d kvs))"
  by (induction kvs arbitrary: d) (simp_all add: distinct_keys_setitem)

lemma distinct_keys_dict_literal: "distinct (map fst (dict_literal kvs))"
  by (simp add: dict_literal_def distinct_keys_foldl)

text \<open>
  The loop over the sorted keys with its lookups is the walk over the entries
  of the dictionary, sorted by flag from the highest to the lowest.
\<close>

lemma translate_refines_dict_walk:
  "translate_port_supported_speeds h bits =
     Inr (sort (spec_walk (rev (sort_key fst (dict_literal (supported_speeds_entries h)))) bits))"
proof -
  let ?t = "dict_literal (supported_speeds_entries h)"
  have d: "distinct (map fst ?t)" by (rule distinct_keys_dict_literal)
  have k: "rev (sort (dict_keys ?t)) = map fst (rev (sort_key fst ?t))"
    by (simp add: dict_keys_def map_sort_key [symmetric] rev_map)
  have "speeds_loop ?t (map fst (rev (sort_key fst ?t))) bits [] =
        Inr ([] @ spec_walk (rev (sort_key fst ?t)) bits)"
    using d by (intro speeds_loop_walk) auto
  then show ?thesis
    by (simp add: translate_port_supported_speeds_def Let_def k)
qed

lemma translate_refines_walk:
  assumes "distinct (map fst (supported_speeds_entries h))"
  shows "translate_port_supported_speeds h bits = Inr (spec_supported_speeds h bits)"
  using translate_refines_dict_walk [of h bits] dict_literal_distinct [OF assms]
  by (simp add: spec_supported_speeds_def)

lemma single_bit_flagD: "single_bit_flag k \<Longrightarrow> \<exists>n. k = 2 ^ n"
  by (auto simp: single_bit_flag_def)

text \<open>Subtracting a flag that is present clears its bit and leaves the other bits alone.\<close>

lemma and_single_bit_sub:
  fixes s :: int
  assumes "2 ^ n AND s \<noteq> 0" "m \<noteq> n"
  shows "(2 ^ m AND (s - 2 ^ n) \<noteq> 0) = (2 ^ m AND s \<noteq> 0)"
proof -
  have b: "bit s n" using assms(1) by (simp add: and.commute and_exp_eq_0_iff_not_bit)
  have "s - 2 ^ n = unset_bit n s" using b by (simp add: unset_bit_eq)
  then show ?thesis using assms(2)
    by (simp add: and.commute and_exp_eq_0_iff_not_bit bit_unset_bit_iff)
qed

lemma spec_walk_single_bits:
  "distinct (map fst ps) \<Longrightarrow> list_all single_bit_flag (map fst ps) \<Longrightarrow>
   spec_walk ps bits = map snd (filter (\<lambda>p. fst p AND bits \<noteq> 0) ps)"
proof (induction ps arbitrary: bits)
  case Nil
  then show ?case by simp
next
  case (Cons p ps)
  obtain f g where p: "p = (f, g)" by (cases p)
  obtain n where n: "f = 2 ^ n" using Cons.prems p by (auto dest: single_bit_flagD)
  have ih: "\<And>m. spec_walk ps m = map snd (filter (\<lambda>p. fst p AND m \<noteq> 0) ps)"
    using Cons by simp
  show ?case
  proof (cases "f AND bits \<noteq> 0")
    case False
    then show ?thesis using p ih by simp
  next
    case True
    have "filter (\<lambda>q. fst q AND (bits - f) \<noteq> 0) ps = filter (\<lambda>q. fst q AND bits \<noteq> 0) ps"
    proof (rule filter_cong [OF refl])
      fix q assume q: "q \<in> set ps"
      then obtain m where m: "fst q = 2 ^ m"
        using Cons.prems(2) by (auto simp: list_all_iff dest: single_bit_flagD)
      have "fst q \<noteq> f" using q Cons.prems(1) p by auto
      then have "m \<noteq> n" using m n by auto
      then show "(fst q AND (bits - f) \<noteq> 0) = (fst q AND bits \<noteq> 0)"
        using and_single_bit_sub [of n bits m] True m n by simp
    qed
    then show ?thesis using p ih True by simp
  qed
qed

lemma sort_snd_filter_perm:
  "sort (map snd (filter P (rev (sort_key fst t)))) =
   sort (map (snd :: int \<times> int \<Rightarrow> int) (filter P t))"
proof -
  have "mset (map snd (filter P (rev (sort_key fst t)))) = mset (map snd (filter P t))"
    by simp
  then show ?thesis by (metis properties_for_sort sorted_sort mset_sort)
qed

lemma translate_characterised:
  assumes "speed_flags_wf h"
  shows "translate_port_supported_speeds h bits =
         Inr (sort (map snd (filter (\<lambda>p. fst p AND bits \<noteq> 0) (supported_speeds_entries h))))"
proof -
  let ?t = "supported_speeds_entries h"
  have d: "distinct (map fst ?t)" and s: "list_all single_bit_flag (map fst ?t)"
    using assms by (simp_all add: speed_flags_wf_def)
  have d': "distinct (map fst (rev (sort_key fst ?t)))"
    using d by (simp add: rev_map [symmetric] map_sort_key)
  have s': "list_all single_bit_flag (map fst (rev (sort_key fst ?t)))"
    using s by (simp add: list_all_iff)
  show ?thesis
    using translate_refines_walk [OF d, of bits] spec_walk_single_bits [OF d' s', of bits]
    by (simp add: spec_supported_speeds_def sort_snd_filter_perm)
qed

lemma single_bit_and_or:
  assumes "single_bit_flag f" "single_bit_flag a" "single_bit_flag b"
  shows "(f AND (a OR b) \<noteq> 0) = (f = a \<or> f = b)"
proof -
  obtain i j k where e: "f = 2 ^ i" "a = 2 ^ j" "b = 2 ^ k"
    using assms by (blast dest: single_bit_flagD)
  have "f AND (a OR b) = (a OR b) AND 2 ^ i"
    using e by (simp add: and.commute)
  then have "(f AND (a OR b) \<noteq> 0) = bit (a OR b) i"
    by (simp add: and_exp_eq_0_iff_not_bit)
  also have "\<dots> = (i = j \<or> i = k)"
    using e by (auto simp: bit_or_iff bit_exp_iff)
  also have "\<dots> = (f = a \<or> f = b)"
    using e by auto
  finally show ?thesis .
qed

lemma speeds_loop_zero: "speeds_loop t ks 0 acc = Inr acc"
  by (induction ks) auto

lemma translate_zero: "translate_port_supported_speeds h 0 = Inr []"
  by (simp add: translate_port_supported_speeds_def speeds_loop_zero)

lemma translate_sorted: "translate_port_supported_speeds h bits = Inr r \<Longrightarrow> sorted r"
  by (auto simp: translate_port_supported_speeds_def Let_def split: sum.splits)

lemma translate_4_8:
  assumes "speed_flags_wf h"
  shows "translate_port_supported_speeds h (HBA_PORTSPEED_4GBIT h OR HBA_PORTSPEED_8GBIT h) = Inr [4, 8]"
proof -
  let ?t = "supported_speeds_entries h"
  let ?a = "HBA_PORTSPEED_4GBIT h" and ?b = "HBA_PORTSPEED_8GBIT h"
  have d: "distinct (map fst ?t)" and s: "list_all single_bit_flag (map fst ?t)"
    using assms by (simp_all add: speed_flags_wf_def)
  have sa: "single_bit_flag ?a" and sb: "single_bit_flag ?b"
    using s by (simp_all add: supported_speeds_entries_def)
  have "filter (\<lambda>p. fst p AND (?a OR ?b) \<noteq> 0) ?t = filter (\<lambda>p. fst p = ?a \<or> fst p = ?b) ?t"
  proof (rule filter_cong [OF refl])
    fix p assume "p \<in> set ?t"
    then have "single_bit_flag (fst p)" using s by (auto simp: list_all_iff)
    then show "(fst p AND (?a OR ?b) \<noteq> 0) = (fst p = ?a \<or> fst p = ?b)"
      using sa sb by (rule single_bit_and_or)
  qed
  also have "\<dots> = [(?a, 4), (?b, 8)]"
    using d by (auto simp: supported_speeds_entries_def)
  finally show ?thesis
    using translate_characterised [OF assms, of "?a OR ?b"] by simp
qed

lemma std_headers_flags_wf: "speed_flags_wf std_headers"
  by (simp add: speed_flags_wf_def supported_speeds_entries_def std_headers_def
        single_bit_flag_def upt_rec)

lemma overlapping_headers_distinct:
  "distinct (map fst (supported_speeds_entries overlapping_headers))"
  by (simp add: supported_speeds_entries_def overlapping_headers_def std_headers_def)

lemma overlapping_spec_walk:
  "spec_supported_speeds overlapping_headers 3 = [10]"
  "spec_supported_speeds overlapping_headers 1 = [2, 10]"
  by (simp_all add: spec_supported_speeds_def supported_speeds_entries_def
        overlapping_headers_def std_headers_def)

text \<open>
  C7. For every bitmask and whatever the constants are,
  \<open>translate_port_supported_speeds\<close> is the walk of the specification over the
  entries of its dictionary: the flags are taken from the highest value to the
  lowest, the Gbit/s value of each flag that has a bit in common with what is
  left of the mask is appended and the flag is subtracted from the mask, and
  the values are returned sorted ascending. When the nine flags are distinct
  the dictionary is the table as written. Mask 0 gives the empty list. When
  the flags are distinct single bits the result is the sorted list of the
  values of exactly the flags whose bit is set, and the mask that combines the
  4 Gbit and the 8 Gbit flag gives \<open>[4, 8]\<close>. With overlapping flags
  (10 Gbit = 3 = 1 Gbit + 2 Gbit) the subtraction and the order show: mask 3
  gives \<open>[10]\<close> alone, and mask 1 gives \<open>[2, 10]\<close>, because subtracting 3 from 1
  leaves the bits of -2.
\<close>

theorem translate_port_supported_speeds_decoding:
  "translate_port_supported_speeds h bits =
     Inr (sort (spec_walk (rev (sort_key fst (dict_literal (supported_speeds_entries h)))) bits))
   \<and> (distinct (map fst (supported_speeds_entries h)) \<longrightarrow>
        translate_port_supported_speeds h bits = Inr (spec_supported_speeds h bits))
   \<and> (\<forall>r. translate_port_supported_speeds h bits = Inr r \<longrightarrow> sorted r)
   \<and> translate_port_supported_speeds h 0 = Inr []
   \<and> (speed_flags_wf h \<longrightarrow>
        translate_port_supported_speeds h bits =
          Inr (sort (map snd (filter (\<lambda>p. fst p AND bits \<noteq> 0) (supported_speeds_entries h))))
      \<and> translate_port_supported_speeds h (HBA_PORTSPEED_4GBIT h OR HBA_PORTSPEED_8GBIT h)
          = Inr [4, 8])
   \<and> translate_port_supported_speeds overlapping_headers 3 = Inr [10]
   \<and> translate_port_supported_speeds overlapping_headers 1 = Inr [2, 10]"
proof (intro conjI allI impI)
  show "translate_port_supported_speeds h bits =
     Inr (sort (spec_walk (rev (sort_key fst (dict_literal (supported_speeds_entries h)))) bits))"
    by (rule translate_refines_dict_walk)
next
  assume "distinct (map fst (supported_speeds_entries h))"
  then show "translate_port_supported_speeds h bits = Inr (spec_supported_speeds h bits)"
    by (rule translate_refines_walk)
next
  fix r assume "translate_port_supported_speeds h bits = Inr r"
  then show "sorted r" by (rule translate_sorted)
next
  show "translate_port_supported_speeds h 0 = Inr []"
    by (rule translate_zero)
next
  assume "speed_flags_wf h"
  then show "translate_port_supported_speeds h bits =
          Inr (sort (map snd (filter (\<lambda>p. fst p AND bits \<noteq> 0) (supported_speeds_entries h))))"
    by (rule translate_characterised)
next
  assume "speed_flags_wf h"
  then show "translate_port_supported_speeds h (HBA_PORTSPEED_4GBIT h OR HBA_PORTSPEED_8GBIT h)
          = Inr [4, 8]"
    by (rule translate_4_8)
next
  show "translate_port_supported_speeds overlapping_headers 3 = Inr [10]"
    using translate_refines_walk [OF overlapping_headers_distinct, of 3]
    by (simp only: overlapping_spec_walk)
next
  show "translate_port_supported_speeds overlapping_headers 1 = Inr [2, 10]"
    using translate_refines_walk [OF overlapping_headers_distinct, of 1]
    by (simp only: overlapping_spec_walk)
qed

theorem translate_port_supported_speeds_decoding_witness:
  "speed_flags_wf std_headers
   \<and> translate_port_supported_speeds std_headers 24 = Inr [4, 8]
   \<and> sorted [4, 8 :: int]
   \<and> spec_supported_speeds std_headers 24 = [4, 8]
   \<and> translate_port_supported_speeds std_headers 0 = Inr []
   \<and> distinct (map fst (supported_speeds_entries overlapping_headers))
   \<and> \<not> speed_flags_wf overlapping_headers
   \<and> spec_supported_speeds overlapping_headers 3 = [10]
   \<and> translate_port_supported_speeds overlapping_headers 3 = Inr [10]"
proof -
  have wf: "speed_flags_wf std_headers" by (rule std_headers_flags_wf)
  have m: "HBA_PORTSPEED_4GBIT std_headers OR HBA_PORTSPEED_8GBIT std_headers = 24"
    by (simp add: std_headers_def)
  note t = translate_port_supported_speeds_decoding [of std_headers 24]
  note u = translate_port_supported_speeds_decoding [of overlapping_headers 3]
  have "translate_port_supported_speeds std_headers
          (HBA_PORTSPEED_4GBIT std_headers OR HBA_PORTSPEED_8GBIT std_headers) = Inr [4, 8]"
    using t wf by blast
  then have a: "translate_port_supported_speeds std_headers 24 = Inr [4, 8]"
    by (simp only: m)
  have b: "sorted [4, 8 :: int]" using t a by blast
  have dd: "distinct (map fst (supported_speeds_entries std_headers))"
    using wf by (simp add: speed_flags_wf_def)
  have "translate_port_supported_speeds std_headers 24 = Inr (spec_supported_speeds std_headers 24)"
    using t dd by blast
  then have c: "spec_supported_speeds std_headers 24 = [4, 8]" using a by simp
  have z: "translate_port_supported_speeds std_headers 0 = Inr []" using t by blast
  have d: "distinct (map fst (supported_speeds_entries overlapping_headers))"
    by (rule overlapping_headers_distinct)
  have n: "\<not> speed_flags_wf overlapping_headers"
    by (simp add: speed_flags_wf_def supported_speeds_entries_def overlapping_headers_def
          std_headers_def single_bit_flag_def upt_rec)
  have e: "translate_port_supported_speeds overlapping_headers 3 = Inr [10]" using u by blast
  have "translate_port_supported_speeds overlapping_headers 3 =
          Inr (spec_supported_speeds overlapping_headers 3)"
    using u d by blast
  then have f: "spec_supported_speeds overlapping_headers 3 = [10]" using e by simp
  show ?thesis by (intro conjI wf a b c z d n f e)
qed

section \<open>Unrecognized enumeration codes\<close>

lemma py_str_4: "py_str 4 = ''4''"
  by code_simp

text \<open>
  The port type lookup has no default: on the concrete constants, whose table
  has no entry for code 4, \<open>translate_port_type\<close> raises \<open>KeyError\<close>.
\<close>

theorem translate_port_type_no_default_counterexample:
  "py_str 4 \<notin> fst ` set (HBA_PORTTYPE std_headers)
   \<and> translate_port_type std_headers 4 = Inl KeyError"
  by (simp add: translate_port_type_def dict_getitem_def std_headers_def py_str_4)

text \<open>
  C8, as amended. A port state code that is none of the eight known codes
  raises \<open>KeyError\<close>, and so does a port type code that has no entry in
  \<open>HBA_PORTTYPE\<close>: neither lookup has a default, and a port type code that has
  an entry gives that entry. \<open>translate_port_speed\<close> returns 0 for the "not
  negotiated" code and for every code that is not a key of its table.
\<close>

theorem enum_translation_unrecognized_codes:
  "(source \<notin> set [HBA_PORTSTATE_UNKNOWN h, HBA_PORTSTATE_ONLINE h, HBA_PORTSTATE_OFFLINE h,
                   HBA_PORTSTATE_BYPASSED h, HBA_PORTSTATE_DIAGNOSTICS h, HBA_PORTSTATE_LINKDOWN h,
                   HBA_PORTSTATE_ERROR h, HBA_PORTSTATE_LOOPBACK h]
      \<longrightarrow> translate_port_state h source = Inl KeyError)
   \<and> translate_port_speed h (HBA_PORTSPEED_NOT_NEGOTIATED h) = 0
   \<and> (source \<notin> set [HBA_PORTSPEED_UNKNOWN h, HBA_PORTSPEED_1GBIT h, HBA_PORTSPEED_2GBIT h,
                     HBA_PORTSPEED_10GBIT h, HBA_PORTSPEED_4GBIT h, HBA_PORTSPEED_8GBIT h,
                     HBA_PORTSPEED_16GBIT h, HBA_PORTSPEED_32GBIT h, HBA_PORTSPEED_20GBIT h,
                     HBA_PORTSPEED_40GBIT h, HBA_PORTSPEED_NOT_NEGOTIATED h]
      \<longrightarrow> translate_port_speed h source = 0)
   \<and> (py_str number \<notin> fst ` set (HBA_PORTTYPE h)
      \<longrightarrow> translate_port_type h number = Inl KeyError)
   \<and> (\<forall>v. map_of (HBA_PORTTYPE h) (py_str number) = Some v
      \<longrightarrow> translate_port_type h number = Inr v)"
proof (intro conjI impI allI)
  assume "source \<notin> set [HBA_PORTSTATE_UNKNOWN h, HBA_PORTSTATE_ONLINE h, HBA_PORTSTATE_OFFLINE h,
                   HBA_PORTSTATE_BYPASSED h, HBA_PORTSTATE_DIAGNOSTICS h, HBA_PORTSTATE_LINKDOWN h,
                   HBA_PORTSTATE_ERROR h, HBA_PORTSTATE_LOOPBACK h]"
  then show "translate_port_state h source = Inl KeyError"
    unfolding translate_port_state_def dict_getitem_def
    by (subst map_of_dict_literal_None) auto
next
  show "translate_port_speed h (HBA_PORTSPEED_NOT_NEGOTIATED h) = 0"
    by (simp add: translate_port_speed_def dict_get_def port_speed_translation_def
          map_of_dict_literal)
next
  assume "source \<notin> set [HBA_PORTSPEED_UNKNOWN h, HBA_PORTSPEED_1GBIT h, HBA_PORTSPEED_2GBIT h,
                     HBA_PORTSPEED_10GBIT h, HBA_PORTSPEED_4GBIT h, HBA_PORTSPEED_8GBIT h,
                     HBA_PORTSPEED_16GBIT h, HBA_PORTSPEED_32GBIT h, HBA_PORTSPEED_20GBIT h,
                     HBA_PORTSPEED_40GBIT h, HBA_PORTSPEED_NOT_NEGOTIATED h]"
  then show "translate_port_speed h source = 0"
    unfolding translate_port_speed_def dict_get_def port_speed_translation_def
    by (subst map_of_dict_literal_None) auto
next
  assume "py_str number \<notin> fst ` set (HBA_PORTTYPE h)"
  then have "map_of (HBA_PORTTYPE h) (py_str number) = None"
    by (simp add: map_of_eq_None_iff)
  then show "translate_port_type h number = Inl KeyError"
    by (simp add: translate_port_type_def dict_getitem_def)
next
  fix v assume "map_of (HBA_PORTTYPE h) (py_str number) = Some v"
  then show "translate_port_type h number = Inr v"
    by (simp add: translate_port_type_def dict_getitem_def)
qed

lemma py_str_5: "py_str 5 = ''5''"
  by code_simp

theorem enum_translation_unrecognized_codes_witness:
  "translate_port_state std_headers 9 = Inl KeyError
   \<and> translate_port_speed std_headers 32768 = 0
   \<and> translate_port_speed std_headers 3 = 0
   \<and> translate_port_type std_headers 4 = Inl KeyError
   \<and> translate_port_type std_headers 5 = Inr ''N_Port''"
proof -
  note t = enum_translation_unrecognized_codes [of 9 std_headers 4]
  have a: "translate_port_state std_headers 9 = Inl KeyError"
    using t by (simp add: std_headers_def)
  have b: "translate_port_speed std_headers 32768 = 0"
    using t by (simp add: std_headers_def)
  have c: "translate_port_speed std_headers 3 = 0"
    using enum_translation_unrecognized_codes [of 3 std_headers 4] by (simp add: std_headers_def)
  have k: "py_str 4 \<notin> fst ` set (HBA_PORTTYPE std_headers)"
    by (simp add: std_headers_def py_str_4)
  have d: "translate_port_type std_headers 4 = Inl KeyError"
    using t k by blast
  have m: "map_of (HBA_PORTTYPE std_headers) (py_str 5) = Some ''N_Port''"
    by (simp add: std_headers_def py_str_5)
  have e: "translate_port_type std_headers 5 = Inr ''N_Port''"
    using enum_translation_unrecognized_codes [of 9 std_headers 5] m by blast
  show ?thesis by (intro conjI a b c d e)
qed

section \<open>The mapping table fetch\<close>

lemma count_unfold:
  "get_local_port_mappings_count h svc log =
     (case svc (length log) (build_empty_mappings_struct 0) of
        Failed return_code buff \<Rightarrow>
          (if return_code = HBA_STATUS_ERROR_MORE_DATA h then NumberOfEntries buff else 0,
           log @ [build_empty_mappings_struct 0])
      | Ok buff \<Rightarrow> (0, log @ [build_empty_mappings_struct 0]))"
  by (simp add: get_local_port_mappings_count_def HBA_GetFcpTargetMappingV2_def Let_def
        split: response.splits)

lemma count_log:
  "snd (get_local_port_mappings_count h svc log) = log @ [build_empty_mappings_struct 0]"
  by (simp add: count_unfold split: response.splits)

lemma mappings_unfold:
  "get_local_port_mappings h svc log =
     (let n = fst (get_local_port_mappings_count h svc log);
          log2 = log @ [build_empty_mappings_struct 0, build_empty_mappings_struct n]
      in case svc (Suc (length log)) (build_empty_mappings_struct n) of
           Failed c buff \<Rightarrow>
             (if c = HBA_STATUS_ERROR_ILLEGAL_WWN h \<or> c = HBA_STATUS_ERROR_NOT_SUPPORTED h \<or>
                 c = HBA_STATUS_ERROR_MORE_DATA h \<or> c = HBA_STATUS_ERROR h
              then Inr create_empty else Inl (RuntimeError c), log2)
         | Ok buff \<Rightarrow> (Inr buff, log2))"
proof -
  obtain n log1 where c: "get_local_port_mappings_count h svc log = (n, log1)"
    by (cases "get_local_port_mappings_count h svc log")
  have l: "log1 = log @ [build_empty_mappings_struct 0]"
    using count_log [of h svc log] c by simp
  show ?thesis
    by (simp add: get_local_port_mappings_def c l HBA_GetFcpTargetMappingV2_def Let_def
          split: response.splits)
qed

lemma mappings_to_dict_create_empty: "mappings_to_dict cfg create_empty = Inr []"
  by (simp add: mappings_to_dict_def create_empty_def)

text \<open>
  C3. When the sized call (the second call, made on the skeleton of the
  probed size) fails with code \<open>c\<close>, the resolver returns the empty table if
  \<open>c\<close> is the illegal-WWN, not-supported, more-data or generic error code, and
  raises \<open>RuntimeError c\<close> for any other code. The empty table has no rows and
  gives the empty dictionary.
\<close>

theorem mapping_failure_codes_give_empty_table:
  assumes "svc (Suc (length log))
             (build_empty_mappings_struct (fst (get_local_port_mappings_count h svc log)))
           = Failed c buff"
  shows "fst (get_local_port_mappings h svc log) =
           (if c \<in> {HBA_STATUS_ERROR_ILLEGAL_WWN h, HBA_STATUS_ERROR_NOT_SUPPORTED h,
                     HBA_STATUS_ERROR_MORE_DATA h, HBA_STATUS_ERROR h}
            then Inr create_empty else Inl (RuntimeError c))
         \<and> entry create_empty = [] \<and> NumberOfEntries create_empty = 0
         \<and> mappings_to_dict cfg create_empty = Inr []"
proof -
  have "fst (get_local_port_mappings h svc log) =
           (if c \<in> {HBA_STATUS_ERROR_ILLEGAL_WWN h, HBA_STATUS_ERROR_NOT_SUPPORTED h,
                     HBA_STATUS_ERROR_MORE_DATA h, HBA_STATUS_ERROR h}
            then Inr create_empty else Inl (RuntimeError c))"
    using assms by (simp add: mappings_unfold Let_def)
  moreover have "entry create_empty = [] \<and> NumberOfEntries create_empty = 0"
    by (simp add: create_empty_def)
  ultimately show ?thesis
    using mappings_to_dict_create_empty [of cfg] by simp
qed

theorem mapping_failure_codes_give_empty_table_witness:
  "fst (get_local_port_mappings std_headers (failing_service 2) []) = Inr create_empty
   \<and> fst (get_local_port_mappings std_headers (failing_service 5) []) = Inr create_empty
   \<and> fst (get_local_port_mappings std_headers (failing_service 7) []) = Inr create_empty
   \<and> fst (get_local_port_mappings std_headers (failing_service 1) []) = Inr create_empty
   \<and> fst (get_local_port_mappings std_headers (failing_service 99) []) = Inl (RuntimeError 99)"
proof -
  note t = mapping_failure_codes_give_empty_table
             [where svc = "failing_service c" and log = "[]" and h = std_headers and c = c
                and buff = "\<lparr> NumberOfEntries = 1, entry = [] \<rparr>" for c]
  have f: "\<And>c b. failing_service c (Suc (length ([] :: HBA_FCPTargetMappingV2 list))) b =
             Failed c \<lparr> NumberOfEntries = 1, entry = [] \<rparr>"
    by (simp add: failing_service_def)
  show ?thesis
    using t [OF f, of 2] t [OF f, of 5] t [OF f, of 7] t [OF f, of 1] t [OF f, of 99]
    by (simp add: std_headers_def)
qed

text \<open>
  C4. When the service answers the zero-capacity probe with "more data", the
  element count is the first field of the response buffer, and exactly one
  more request follows, on the empty skeleton with that many zeroed rows.
\<close>

theorem mapping_fetch_two_phase:
  assumes "svc (length log) (build_empty_mappings_struct 0)
           = Failed (HBA_STATUS_ERROR_MORE_DATA h) buff"
  shows "get_local_port_mappings_count h svc log =
           (NumberOfEntries buff, log @ [build_empty_mappings_struct 0])
   \<and> snd (get_local_port_mappings h svc log) =
       log @ [build_empty_mappings_struct 0, build_empty_mappings_struct (NumberOfEntries buff)]
   \<and> NumberOfEntries (build_empty_mappings_struct (NumberOfEntries buff)) = NumberOfEntries buff
   \<and> entry (build_empty_mappings_struct (NumberOfEntries buff)) =
       replicate (NumberOfEntries buff) zero_entry
   \<and> entry (build_empty_mappings_struct 0) = []"
proof -
  have c: "get_local_port_mappings_count h svc log =
           (NumberOfEntries buff, log @ [build_empty_mappings_struct 0])"
    using assms by (simp add: count_unfold)
  have "snd (get_local_port_mappings h svc log) =
       log @ [build_empty_mappings_struct 0, build_empty_mappings_struct (NumberOfEntries buff)]"
    by (simp add: mappings_unfold c Let_def split: response.splits)
  then show ?thesis using c by (simp add: build_empty_mappings_struct_def)
qed

theorem mapping_fetch_two_phase_witness:
  "get_local_port_mappings_count std_headers example_service [] =
     (1, [build_empty_mappings_struct 0])
   \<and> snd (get_local_port_mappings std_headers example_service []) =
       [build_empty_mappings_struct 0, build_empty_mappings_struct 1]
   \<and> entry (build_empty_mappings_struct 1) = [zero_entry]"
proof -
  have p: "example_service (length ([] :: HBA_FCPTargetMappingV2 list)) (build_empty_mappings_struct 0)
           = Failed (HBA_STATUS_ERROR_MORE_DATA std_headers) \<lparr> NumberOfEntries = 1, entry = [] \<rparr>"
    by (simp add: example_service_def std_headers_def)
  show ?thesis
    using mapping_fetch_two_phase
            [where svc = example_service and log = "[]" and h = std_headers, OF p]
    by (simp add: build_empty_mappings_struct_def)
qed

text \<open>
  C10. When the probe does not answer "more data" (it succeeds, or fails with
  any other code), the count is 0, nothing is raised for the probe, and the
  second call is still made, on the zero-entry buffer; the outcome of the
  fetch is that of the second call alone.
\<close>

theorem mapping_probe_outcome_swallowed:
  assumes "\<forall>buff. svc (length log) (build_empty_mappings_struct 0)
                  \<noteq> Failed (HBA_STATUS_ERROR_MORE_DATA h) buff"
  shows "get_local_port_mappings_count h svc log = (0, log @ [build_empty_mappings_struct 0])
   \<and> snd (get_local_port_mappings h svc log) =
       log @ [build_empty_mappings_struct 0, build_empty_mappings_struct 0]
   \<and> entry (build_empty_mappings_struct 0) = []
   \<and> fst (get_local_port_mappings h svc log) =
       (case svc (Suc (length log)) (build_empty_mappings_struct 0) of
          Ok table \<Rightarrow> Inr table
        | Failed c b \<Rightarrow>
            if c \<in> {HBA_STATUS_ERROR_ILLEGAL_WWN h, HBA_STATUS_ERROR_NOT_SUPPORTED h,
                     HBA_STATUS_ERROR_MORE_DATA h, HBA_STATUS_ERROR h}
            then Inr create_empty else Inl (RuntimeError c))"
proof -
  have c: "get_local_port_mappings_count h svc log = (0, log @ [build_empty_mappings_struct 0])"
    using assms by (simp add: count_unfold split: response.splits)
  have s: "snd (get_local_port_mappings h svc log) =
       log @ [build_empty_mappings_struct 0, build_empty_mappings_struct 0]"
    by (simp add: mappings_unfold c Let_def split: response.splits)
  have f: "fst (get_local_port_mappings h svc log) =
       (case svc (Suc (length log)) (build_empty_mappings_struct 0) of
          Ok table \<Rightarrow> Inr table
        | Failed c b \<Rightarrow>
            if c \<in> {HBA_STATUS_ERROR_ILLEGAL_WWN h, HBA_STATUS_ERROR_NOT_SUPPORTED h,
                     HBA_STATUS_ERROR_MORE_DATA h, HBA_STATUS_ERROR h}
            then Inr create_empty else Inl (RuntimeError c))"
    by (simp add: mappings_unfold c Let_def split: response.splits)
  show ?thesis using c s f by (simp add: build_empty_mappings_struct_def)
qed

theorem mapping_probe_outcome_swallowed_witness:
  "get_local_port_mappings_count std_headers probe_fails_service [] =
     (0, [build_empty_mappings_struct 0])
   \<and> get_local_port_mappings std_headers probe_fails_service [] =
       (Inr example_table, [build_empty_mappings_struct 0, build_empty_mappings_struct 0])
   \<and> get_local_port_mappings std_headers (\<lambda>k buff. Ok example_table) [] =
       (Inr example_table, [build_empty_mappings_struct 0, build_empty_mappings_struct 0])"
proof -
  have p: "\<forall>buff. probe_fails_service (length ([] :: HBA_FCPTargetMappingV2 list))
                    (build_empty_mappings_struct 0)
                  \<noteq> Failed (HBA_STATUS_ERROR_MORE_DATA std_headers) buff"
    by (simp add: probe_fails_service_def std_headers_def)
  have q: "\<forall>buff. (\<lambda>k buff. Ok example_table) (length ([] :: HBA_FCPTargetMappingV2 list))
                    (build_empty_mappings_struct 0)
                  \<noteq> Failed (HBA_STATUS_ERROR_MORE_DATA std_headers) buff"
    by simp
  have a: "get_local_port_mappings std_headers probe_fails_service [] =
       (Inr example_table, [build_empty_mappings_struct 0, build_empty_mappings_struct 0])"
    using mapping_probe_outcome_swallowed
            [where svc = probe_fails_service and log = "[]" and h = std_headers, OF p]
    by (simp add: prod_eq_iff probe_fails_service_def)
  have b: "get_local_port_mappings std_headers (\<lambda>k buff. Ok example_table) [] =
       (Inr example_table, [build_empty_mappings_struct 0, build_empty_mappings_struct 0])"
    using mapping_probe_outcome_swallowed
            [where svc = "\<lambda>k buff. Ok example_table" and log = "[]" and h = std_headers, OF q]
    by (simp add: prod_eq_iff)
  show ?thesis
    using mapping_probe_outcome_swallowed
            [where svc = probe_fails_service and log = "[]" and h = std_headers, OF p] a b
    by simp
qed

section \<open>Remote ports and the local port\<close>

lemma kept_fun:
  "kept = (\<lambda>p. port_fcid p \<notin> set WELL_KNOWN_FC_ADDRESSES \<and> port_state p \<noteq> Some ''offline'')"
  by (simp add: fun_eq_iff kept_def)

lemma get_remote_ports_loop_filter:
  "get_remote_ports_loop h py3 fetch is acc =
   (case all_remote_ports h py3 fetch is of Inl e \<Rightarrow> Inl e | Inr all \<Rightarrow> Inr (acc @ filter kept all))"
proof (induction "is" arbitrary: acc)
  case Nil
  then show ?case by simp
next
  case (Cons i "is")
  show ?case
  proof (cases "fetch i")
    case (Inl e)
    then show ?thesis by (simp add: and_then_def)
  next
    case (Inr attrs)
    show ?thesis
    proof (cases "get_port_object h py3 None attrs")
      case (Inl e)
      then show ?thesis using Inr by (simp add: and_then_def)
    next
      case rp: (Inr remote_port)
      show ?thesis
        using Inr rp
        by (cases "all_remote_ports h py3 fetch is") (simp_all add: Cons.IH and_then_def kept_def)
    qed
  qed
qed

lemma get_remote_ports_filter:
  "get_remote_ports h py3 fetch n =
   (case all_remote_ports h py3 fetch [0..<n] of Inl e \<Rightarrow> Inl e | Inr all \<Rightarrow> Inr (filter kept all))"
  by (simp add: get_remote_ports_def get_remote_ports_loop_filter split: sum.splits)

lemma WELL_KNOWN_range: "set WELL_KNOWN_FC_ADDRESSES = {0xFFFFF5 .. 0xFFFFFE}"
proof -
  have "{0xFFFFF5 .. 0xFFFFFE :: int} = set [0xFFFFF5 .. 0xFFFFFE]" by (simp only: set_upto)
  also have "[0xFFFFF5 .. 0xFFFFFE :: int] = WELL_KNOWN_FC_ADDRESSES"
    by (simp add: WELL_KNOWN_FC_ADDRESSES_def upto.simps)
  finally show ?thesis by simp
qed

lemma kept_range:
  "kept p = (port_fcid p \<notin> {0xFFFFF5 .. 0xFFFFFE} \<and> port_state p \<noteq> Some ''offline'')"
  by (simp only: kept_def WELL_KNOWN_range)

lemma extend_selectors:
  "discovered_ports (Port.extend p (LocalPort.fields d s m)) = d"
  "all_port_mappings (Port.extend p (LocalPort.fields d s m)) = m"
  "statistics (Port.extend p (LocalPort.fields d s m)) = s"
  "hct (Port.extend p (LocalPort.fields d s m)) = hct p"
  by (simp_all add: Port.defs LocalPort.defs)

lemma assign_hct_fields:
  "port_fcid (assign_hct cfg l d p) = port_fcid p"
  "port_state (assign_hct cfg l d p) = port_state p"
  "port_wwn (assign_hct cfg l d p) = port_wwn p"
  by (simp_all add: assign_hct_def Let_def)

lemma assign_hct_kept: "kept (assign_hct cfg l d p) = kept p"
  by (simp add: kept_def assign_hct_fields)

lemma assign_hct_hct:
  "hct (assign_hct cfg l d p) =
     (fst l, if py_in ''aix'' (platform_string cfg) then (0, int_base16 (address (port_wwn p)))
             else dict_get d (port_wwn p) (-1, -1))"
  by (simp add: assign_hct_def Let_def)

text \<open>What a successful \<open>get_local_port\<close> is made of, and the converse.\<close>

lemma get_local_port_InrD:
  assumes "get_local_port cfg aa env = Inr lp"
  shows "\<exists>pa rps mappings d.
           port_attributes_result env = Inr pa
         \<and> get_remote_ports (hdr cfg) (PY3 cfg) (remote_port_attributes_result env)
              (NumberOfDiscoveredPorts pa) = Inr rps
         \<and> fst (get_local_port_mappings (hdr cfg) (mapping_calls env) []) = Inr mappings
         \<and> mappings_to_dict cfg mappings = Inr d
         \<and> all_port_mappings lp = mappings
         \<and> discovered_ports lp = map (assign_hct cfg (hct lp) d) rps"
proof -
  from assms obtain pa port0 rps st mappings d where
    a: "port_attributes_result env = Inr pa"
    and r: "get_remote_ports (hdr cfg) (PY3 cfg) (remote_port_attributes_result env)
              (NumberOfDiscoveredPorts pa) = Inr rps"
    and m: "fst (get_local_port_mappings (hdr cfg) (mapping_calls env) []) = Inr mappings"
    and d: "mappings_to_dict cfg mappings = Inr d"
    and lp: "lp = Port.extend (populate_local_port_hct port0)
                   (LocalPort.fields
                      (map (assign_hct cfg (hct (populate_local_port_hct port0)) d) rps) st mappings)"
    unfolding get_local_port_def and_then_Inr_iff Let_def by blast
  have "all_port_mappings lp = mappings"
    and "discovered_ports lp = map (assign_hct cfg (hct lp) d) rps"
    unfolding lp by (simp_all only: extend_selectors)
  with a r m d show ?thesis by blast
qed

lemma get_local_port_InrI:
  assumes "port_attributes_result env = Inr pa"
    and "get_port_object (hdr cfg) (PY3 cfg) (Some aa) pa = Inr port0"
    and "extract_wwn_buffer_from_port_attributes pa = Inr wb"
    and "get_remote_ports (hdr cfg) (PY3 cfg) (remote_port_attributes_result env)
              (NumberOfDiscoveredPorts pa) = Inr rps"
    and "get_local_port_statistics cfg env = Inr st"
    and "fst (get_local_port_mappings (hdr cfg) (mapping_calls env) []) = Inr mappings"
    and "mappings_to_dict cfg mappings = Inr d"
  shows "get_local_port cfg aa env =
           Inr (Port.extend (populate_local_port_hct port0)
                  (LocalPort.fields
                     (map (assign_hct cfg (hct (populate_local_port_hct port0)) d) rps)
                     st mappings))"
  unfolding get_local_port_def using assms by (simp add: and_then_def Let_def)

subsection \<open>The concrete scan, evaluated\<close>

lemma sum_case_ex: "(case r of Inl e \<Rightarrow> False | Inr p \<Rightarrow> P p) \<Longrightarrow> \<exists>p. r = Inr p \<and> P p"
  by (cases r) auto

lemma example_remote_0:
  "\<exists>p. get_port_object std_headers True None
          (example_port_attributes [0x50, 0, 0, 0, 0, 0, 0, 0x0A] 0x010200 2) = Inr p
       \<and> port_fcid p = 0x010200 \<and> port_state p = Some ''online''
       \<and> port_wwn p = WWN ''500000000000000a''"
  by (rule sum_case_ex) code_simp

lemma example_remote_1:
  "\<exists>p. get_port_object std_headers True None
          (example_port_attributes [0x50, 0, 0, 0, 0, 0, 0, 0x0B] 0xFFFFFC 2) = Inr p
       \<and> port_fcid p = 0xFFFFFC \<and> port_state p = Some ''online''"
  by (rule sum_case_ex) code_simp

lemma example_remote_2:
  "\<exists>p. get_port_object std_headers True None
          (example_port_attributes [0x50, 0, 0, 0, 0, 0, 0, 0x0C] 0x010300 3) = Inr p
       \<and> port_fcid p = 0x010300 \<and> port_state p = Some ''offline''"
  by (rule sum_case_ex) code_simp

lemma example_local_object:
  "\<exists>p. get_port_object std_headers True (Some example_adapter_attributes)
          (example_port_attributes [0x21, 0, 0, 0, 0xC9, 0, 0, 1] 0x010100 2) = Inr p
       \<and> os_device_name p = ''host12'' \<and> port_wwn p = WWN ''21000000c9000001''"
  by (rule sum_case_ex) code_simp

lemma example_remote_ports:
  "\<exists>p. get_remote_ports std_headers True example_remote 3 = Inr [p]
       \<and> port_fcid p = 0x010200 \<and> port_state p = Some ''online''
       \<and> port_wwn p = WWN ''500000000000000a''"
proof -
  obtain p0 where p0: "get_port_object std_headers True None
          (example_port_attributes [0x50, 0, 0, 0, 0, 0, 0, 0x0A] 0x010200 2) = Inr p0"
       "port_fcid p0 = 0x010200" "port_state p0 = Some ''online''"
       "port_wwn p0 = WWN ''500000000000000a''"
    using example_remote_0 by blast
  obtain p1 where p1: "get_port_object std_headers True None
          (example_port_attributes [0x50, 0, 0, 0, 0, 0, 0, 0x0B] 0xFFFFFC 2) = Inr p1"
       "port_fcid p1 = 0xFFFFFC"
    using example_remote_1 by blast
  obtain p2 where p2: "get_port_object std_headers True None
          (example_port_attributes [0x50, 0, 0, 0, 0, 0, 0, 0x0C] 0x010300 3) = Inr p2"
       "port_fcid p2 = 0x010300" "port_state p2 = Some ''offline''"
    using example_remote_2 by blast
  have "get_remote_ports std_headers True example_remote 3 = Inr [p0]"
    by (simp add: get_remote_ports_def upt_rec example_remote_def p0 p1 p2
          WELL_KNOWN_FC_ADDRESSES_def)
  then show ?thesis using p0 by blast
qed

lemma example_statistics:
  "get_local_port_statistics (example_config pf) example_port_env =
   Inr [(''rx_frames'', 5), (''fcp_input_requests'', - 1), (''nos_count'', 7)]"
  by code_simp

lemma example_mappings:
  "fst (get_local_port_mappings std_headers example_service []) = Inr example_table"
  by code_simp

lemma example_dict_windows:
  "mappings_to_dict (example_config ''windows'') example_table =
   Inr [(WWN ''500000000000000a'', 0, 3)]"
  by code_simp

lemma example_target: "int_base16 ''500000000000000a'' = 5764607523034234890"
  by (simp add: int_base16_def hex_val_def hex_digits_def)

lemma example_dict_aix:
  "mappings_to_dict (example_config ''aix-7.1'') example_table =
   Inr [(WWN ''500000000000000a'', 0, 5764607523034234890)]"
  by (simp add: mappings_to_dict_def example_table_def example_config_def get_target_number_def
        translate_wwn_def ne_empty_str_def WWN_init_def hexlify_def hex_digits_def and_then_def
        example_target)

lemma example_wwn_buffer:
  "extract_wwn_buffer_from_port_attributes
     (example_port_attributes [0x21, 0, 0, 0, 0xC9, 0, 0, 1] 0x010100 2) =
   Inr [0x21, 0, 0, 0, 0xC9, 0, 0, 1]"
  by code_simp

lemma example_host: "host_digits ''host12'' = ''12''" "int_base10 ''12'' = 12"
  by code_simp+

lemma example_platforms: "\<not> py_in ''aix'' ''windows''" "py_in ''aix'' ''aix-7.1''"
  by code_simp+


lemma example_local_port:
  assumes "mappings_to_dict (example_config pf) example_table = Inr d"
  shows "\<exists>lp p. get_local_port (example_config pf) example_adapter_attributes example_port_env = Inr lp
       \<and> hct lp = (12, -1, -1)
       \<and> all_port_mappings lp = example_table
       \<and> discovered_ports lp = [assign_hct (example_config pf) (12, -1, -1) d p]
       \<and> port_fcid p = 0x010200 \<and> port_state p = Some ''online''
       \<and> port_wwn p = WWN ''500000000000000a''"
proof -
  let ?cfg = "example_config pf"
  let ?pa = "example_port_attributes [0x21, 0, 0, 0, 0xC9, 0, 0, 1] 0x010100 2"
  have c: "hdr ?cfg = std_headers" "PY3 ?cfg = True"
    by (simp_all add: example_config_def)
  obtain port0 where port0: "get_port_object (hdr ?cfg) (PY3 ?cfg) (Some example_adapter_attributes) ?pa
          = Inr port0" "os_device_name port0 = ''host12''"
    using example_local_object unfolding c by blast
  obtain p where p: "get_remote_ports (hdr ?cfg) (PY3 ?cfg) (remote_port_attributes_result example_port_env)
               (NumberOfDiscoveredPorts ?pa) = Inr [p]"
       "port_fcid p = 0x010200" "port_state p = Some ''online''"
       "port_wwn p = WWN ''500000000000000a''"
    using example_remote_ports unfolding c
    by (auto simp: example_port_env_def example_port_attributes_def)
  have a: "port_attributes_result example_port_env = Inr ?pa"
    by (simp add: example_port_env_def)
  have m: "fst (get_local_port_mappings (hdr ?cfg) (mapping_calls example_port_env) []) = Inr example_table"
    using example_mappings unfolding c by (simp add: example_port_env_def)
  have h: "hct (populate_local_port_hct port0) = (12, -1, -1)"
    by (simp add: populate_local_port_hct_def port0 example_host)
  note lp = get_local_port_InrI [OF a port0(1) example_wwn_buffer p(1) example_statistics m assms]
  let ?lp = "Port.extend (populate_local_port_hct port0)
               (LocalPort.fields
                  (map (assign_hct ?cfg (hct (populate_local_port_hct port0)) d) [p])
                  [(''rx_frames'', 5), (''fcp_input_requests'', - 1), (''nos_count'', 7)]
                  example_table)"
  have "hct ?lp = (12, -1, -1)" "all_port_mappings ?lp = example_table"
    "discovered_ports ?lp = [assign_hct ?cfg (12, -1, -1) d p]"
    by (simp_all add: extend_selectors h)
  with lp p show ?thesis by blast
qed

subsection \<open>The filter on remote ports\<close>

text \<open>
  C1. \<open>get_remote_ports\<close> returns the discovered remote ports, in index
  order, without those whose \<open>port_fcid\<close> is one of the ten well-known
  addresses \<open>0xFFFFF5 .. 0xFFFFFE\<close> and without those whose state is offline,
  and with every other one. No port of the result, and no port in the
  \<open>discovered_ports\<close> of a local port, has such an address or is offline.
\<close>

theorem get_remote_ports_drops_well_known_and_offline:
  "get_remote_ports h py3 fetch n =
     (case all_remote_ports h py3 fetch [0..<n] of
        Inl e \<Rightarrow> Inl e
      | Inr all \<Rightarrow> Inr (filter kept all))
   \<and> (\<forall>p. kept p = (port_fcid p \<notin> {0xFFFFF5 .. 0xFFFFFE} \<and> port_state p \<noteq> Some ''offline''))
   \<and> (\<forall>ps. get_remote_ports h py3 fetch n = Inr ps \<longrightarrow>
          (\<forall>p\<in>set ps. port_fcid p \<notin> {0xFFFFF5 .. 0xFFFFFE} \<and> port_state p \<noteq> Some ''offline''))
   \<and> (\<forall>lp. get_local_port cfg aa env = Inr lp \<longrightarrow>
          (\<forall>p\<in>set (discovered_ports lp).
              port_fcid p \<notin> {0xFFFFF5 .. 0xFFFFFE} \<and> port_state p \<noteq> Some ''offline'')
        \<and> (\<exists>pa all d.
              port_attributes_result env = Inr pa
            \<and> all_remote_ports (hdr cfg) (PY3 cfg) (remote_port_attributes_result env)
                 [0..<NumberOfDiscoveredPorts pa] = Inr all
            \<and> discovered_ports lp = map (assign_hct cfg (hct lp) d) (filter kept all)))"
proof (intro conjI allI impI)
  show "get_remote_ports h py3 fetch n =
     (case all_remote_ports h py3 fetch [0..<n] of
        Inl e \<Rightarrow> Inl e
      | Inr all \<Rightarrow> Inr (filter kept all))"
    by (rule get_remote_ports_filter)
next
  fix p
  show "kept p = (port_fcid p \<notin> {0xFFFFF5 .. 0xFFFFFE} \<and> port_state p \<noteq> Some ''offline'')"
    by (rule kept_range)
next
  fix ps assume "get_remote_ports h py3 fetch n = Inr ps"
  then have "\<forall>p\<in>set ps. kept p"
    by (auto simp: get_remote_ports_filter split: sum.splits)
  then show "\<forall>p\<in>set ps. port_fcid p \<notin> {0xFFFFF5 .. 0xFFFFFE} \<and> port_state p \<noteq> Some ''offline''"
    by (simp only: kept_range)
next
  fix lp assume lp: "get_local_port cfg aa env = Inr lp"
  then obtain pa rps d where
    a: "port_attributes_result env = Inr pa"
    and r: "get_remote_ports (hdr cfg) (PY3 cfg) (remote_port_attributes_result env)
              (NumberOfDiscoveredPorts pa) = Inr rps"
    and dp: "discovered_ports lp = map (assign_hct cfg (hct lp) d) rps"
    using get_local_port_InrD by blast
  from r obtain all where
    al: "all_remote_ports (hdr cfg) (PY3 cfg) (remote_port_attributes_result env)
           [0..<NumberOfDiscoveredPorts pa] = Inr all"
    and rps: "rps = filter kept all"
    by (auto simp: get_remote_ports_filter split: sum.splits)
  have "\<forall>p\<in>set (discovered_ports lp). kept p"
    unfolding dp rps by (auto simp: assign_hct_kept)
  then show "\<forall>p\<in>set (discovered_ports lp).
              port_fcid p \<notin> {0xFFFFF5 .. 0xFFFFFE} \<and> port_state p \<noteq> Some ''offline''"
    by (simp only: kept_range)
  show "\<exists>pa all d.
              port_attributes_result env = Inr pa
            \<and> all_remote_ports (hdr cfg) (PY3 cfg) (remote_port_attributes_result env)
                 [0..<NumberOfDiscoveredPorts pa] = Inr all
            \<and> discovered_ports lp = map (assign_hct cfg (hct lp) d) (filter kept all)"
    using a al dp rps by blast
qed

theorem get_remote_ports_drops_well_known_and_offline_witness:
  "(\<exists>p. get_remote_ports std_headers True example_remote 3 = Inr [p]
        \<and> port_fcid p = 0x010200
        \<and> port_fcid p \<notin> {0xFFFFF5 .. 0xFFFFFE} \<and> port_state p \<noteq> Some ''offline'')
   \<and> (\<exists>lp. get_local_port (example_config ''windows'') example_adapter_attributes example_port_env
               = Inr lp
        \<and> map port_fcid (discovered_ports lp) = [0x010200]
        \<and> list_all (\<lambda>p. port_fcid p \<notin> {0xFFFFF5 .. 0xFFFFFE} \<and> port_state p \<noteq> Some ''offline'')
             (discovered_ports lp))"
proof -
  note t = get_remote_ports_drops_well_known_and_offline
             [of std_headers True example_remote 3 "example_config ''windows''"
                 example_adapter_attributes example_port_env]
  obtain p where p: "get_remote_ports std_headers True example_remote 3 = Inr [p]"
    "port_fcid p = 0x010200"
    using example_remote_ports by blast
  have "\<forall>q\<in>set [p]. port_fcid q \<notin> {0xFFFFF5 .. 0xFFFFFE} \<and> port_state q \<noteq> Some ''offline''"
    using t p(1) by blast
  then have a: "port_fcid p \<notin> {0xFFFFF5 .. 0xFFFFFE} \<and> port_state p \<noteq> Some ''offline''"
    by simp
  obtain lp q where lp:
    "get_local_port (example_config ''windows'') example_adapter_attributes example_port_env = Inr lp"
    "discovered_ports lp = [assign_hct (example_config ''windows'') (12, -1, -1)
                              [(WWN ''500000000000000a'', 0, 3)] q]"
    "port_fcid q = 0x010200"
    using example_local_port [OF example_dict_windows] by blast
  have b: "map port_fcid (discovered_ports lp) = [0x010200]"
    using lp by (simp add: assign_hct_fields)
  have "\<forall>p\<in>set (discovered_ports lp).
              port_fcid p \<notin> {0xFFFFF5 .. 0xFFFFFE} \<and> port_state p \<noteq> Some ''offline''"
    using t lp(1) by blast
  then have c: "list_all (\<lambda>p. port_fcid p \<notin> {0xFFFFF5 .. 0xFFFFFE} \<and> port_state p \<noteq> Some ''offline'')
             (discovered_ports lp)"
    by (simp only: list_all_iff)
  have A: "\<exists>p. get_remote_ports std_headers True example_remote 3 = Inr [p]
        \<and> port_fcid p = 0x010200
        \<and> port_fcid p \<notin> {0xFFFFF5 .. 0xFFFFFE} \<and> port_state p \<noteq> Some ''offline''"
    using p a by (intro exI [of _ p]) simp
  have B: "\<exists>lp. get_local_port (example_config ''windows'') example_adapter_attributes example_port_env
               = Inr lp
        \<and> map port_fcid (discovered_ports lp) = [0x010200]
        \<and> list_all (\<lambda>p. port_fcid p \<notin> {0xFFFFF5 .. 0xFFFFFE} \<and> port_state p \<noteq> Some ''offline'')
             (discovered_ports lp)"
    by (rule exI [of _ lp]) (intro conjI lp(1) b c)
  show ?thesis by (rule conjI [OF A B])
qed

subsection \<open>Host, channel and target of a remote port\<close>

text \<open>
  C2. In a local port that \<open>get_local_port\<close> returns, every discovered port
  has the triple made of the local port's host number, and of the channel and
  target stored under the remote port's WWN in the dictionary built from the
  local port's mapping table, or \<open>(-1, -1)\<close> when the WWN is not a key. When
  the platform string contains \<open>aix\<close> the channel is 0 and the target is the
  WWN read as a hexadecimal number, whatever the dictionary holds.
\<close>

theorem remote_port_hct_from_mappings:
  assumes "get_local_port cfg aa env = Inr lp"
  shows "\<exists>d. mappings_to_dict cfg (all_port_mappings lp) = Inr d \<and>
           (\<forall>rp\<in>set (discovered_ports lp).
              hct rp =
                (fst (hct lp),
                 if py_in ''aix'' (platform_string cfg)
                 then (0, int_base16 (address (port_wwn rp)))
                 else (case map_of d (port_wwn rp) of None \<Rightarrow> (-1, -1) | Some ct \<Rightarrow> ct)))"
proof -
  from assms obtain rps d where
    d: "mappings_to_dict cfg (all_port_mappings lp) = Inr d"
    and dp: "discovered_ports lp = map (assign_hct cfg (hct lp) d) rps"
    using get_local_port_InrD by blast
  have "\<forall>rp\<in>set (discovered_ports lp).
              hct rp =
                (fst (hct lp),
                 if py_in ''aix'' (platform_string cfg)
                 then (0, int_base16 (address (port_wwn rp)))
                 else (case map_of d (port_wwn rp) of None \<Rightarrow> (-1, -1) | Some ct \<Rightarrow> ct))"
    unfolding dp by (auto simp: assign_hct_hct assign_hct_fields dict_get_def)
  with d show ?thesis by blast
qed

theorem remote_port_hct_from_mappings_witness:
  "(\<exists>lp. get_local_port (example_config ''windows'') example_adapter_attributes example_port_env
            = Inr lp
         \<and> mappings_to_dict (example_config ''windows'') (all_port_mappings lp)
            = Inr [(WWN ''500000000000000a'', 0, 3)]
         \<and> hct lp = (12, -1, -1)
         \<and> map hct (discovered_ports lp) = [(12, 0, 3)])
   \<and> (\<exists>lp. get_local_port (example_config ''aix-7.1'') example_adapter_attributes example_port_env
            = Inr lp
         \<and> hct lp = (12, -1, -1)
         \<and> map hct (discovered_ports lp) = [(12, 0, 0x500000000000000A)])"
proof -
  obtain lp q where lp:
    "get_local_port (example_config ''windows'') example_adapter_attributes example_port_env = Inr lp"
    "hct lp = (12, -1, -1)" "all_port_mappings lp = example_table"
    "discovered_ports lp = [assign_hct (example_config ''windows'') (12, -1, -1)
                              [(WWN ''500000000000000a'', 0, 3)] q]"
    "port_wwn q = WWN ''500000000000000a''"
    using example_local_port [OF example_dict_windows] by blast
  let ?rp = "assign_hct (example_config ''windows'') (12, -1, -1) [(WWN ''500000000000000a'', 0, 3)] q"
  obtain d where d: "mappings_to_dict (example_config ''windows'') (all_port_mappings lp) = Inr d"
    and h: "\<forall>rp\<in>set (discovered_ports lp).
              hct rp =
                (fst (hct lp),
                 if py_in ''aix'' (platform_string (example_config ''windows''))
                 then (0, int_base16 (address (port_wwn rp)))
                 else (case map_of d (port_wwn rp) of None \<Rightarrow> (-1, -1) | Some ct \<Rightarrow> ct))"
    using remote_port_hct_from_mappings [OF lp(1)] by blast
  have d': "d = [(WWN ''500000000000000a'', 0, 3)]"
    using d lp(3) example_dict_windows by simp
  have "hct ?rp = (12, 0, 3)"
    using h lp(2,4,5) d'
    by (simp add: example_config_def example_platforms assign_hct_fields)
  then have w: "map hct (discovered_ports lp) = [(12, 0, 3)]"
    using lp(4) by simp
  obtain lp' q' where lp':
    "get_local_port (example_config ''aix-7.1'') example_adapter_attributes example_port_env = Inr lp'"
    "hct lp' = (12, -1, -1)"
    "discovered_ports lp' = [assign_hct (example_config ''aix-7.1'') (12, -1, -1)
                              [(WWN ''500000000000000a'', 0, 5764607523034234890)] q']"
    "port_wwn q' = WWN ''500000000000000a''"
    using example_local_port [OF example_dict_aix] by blast
  let ?rp' = "assign_hct (example_config ''aix-7.1'') (12, -1, -1)
                [(WWN ''500000000000000a'', 0, 5764607523034234890)] q'"
  obtain d2 where
    h': "\<forall>rp\<in>set (discovered_ports lp').
              hct rp =
                (fst (hct lp'),
                 if py_in ''aix'' (platform_string (example_config ''aix-7.1''))
                 then (0, int_base16 (address (port_wwn rp)))
                 else (case map_of d2 (port_wwn rp) of None \<Rightarrow> (-1, -1) | Some ct \<Rightarrow> ct))"
    using remote_port_hct_from_mappings [OF lp'(1)] by blast
  have "hct ?rp' = (12, 0, 0x500000000000000A)"
    using h' lp'(2,3,4)
    by (simp add: example_config_def example_platforms assign_hct_fields example_target)
  then have w': "map hct (discovered_ports lp') = [(12, 0, 0x500000000000000A)]"
    using lp'(3) by simp
  have d'': "mappings_to_dict (example_config ''windows'') (all_port_mappings lp)
            = Inr [(WWN ''500000000000000a'', 0, 3)]"
    using d d' by simp
  have A: "\<exists>lp. get_local_port (example_config ''windows'') example_adapter_attributes example_port_env
            = Inr lp
         \<and> mappings_to_dict (example_config ''windows'') (all_port_mappings lp)
            = Inr [(WWN ''500000000000000a'', 0, 3)]
         \<and> hct lp = (12, -1, -1)
         \<and> map hct (discovered_ports lp) = [(12, 0, 3)]"
    by (rule exI [of _ lp]) (intro conjI lp(1) lp(2) d'' w)
  have B: "\<exists>lp. get_local_port (example_config ''aix-7.1'') example_adapter_attributes example_port_env
            = Inr lp
         \<and> hct lp = (12, -1, -1)
         \<and> map hct (discovered_ports lp) = [(12, 0, 0x500000000000000A)]"
    by (rule exI [of _ lp']) (intro conjI lp'(1) lp'(2) w')
  show ?thesis by (rule conjI [OF A B])
qed

section \<open>The walk over the adapters\<close>

lemma iter_adapter_ports_all:
  "map (\<lambda>i. get_local_port cfg aa (envs i)) is = map Inr ports \<Longrightarrow>
   iter_adapter_ports cfg aa envs is = (ports, None)"
proof (induction "is" arbitrary: ports)
  case Nil
  then show ?case by simp
next
  case (Cons i "is")
  then obtain p ps where ports: "ports = p # ps" by (cases ports) auto
  have h: "get_local_port cfg aa (envs i) = Inr p"
    and t: "map (\<lambda>i. get_local_port cfg aa (envs i)) is = map Inr ps"
    using Cons.prems ports by simp_all
  show ?case using h Cons.IH [OF t] ports by simp
qed

lemma p_iter_ports_yields:
  "list_all2 (adapter_yields cfg) adapters yields \<Longrightarrow>
   p_iter_ports cfg adapters = (concat yields, None)"
proof (induction adapters yields rule: list_all2_induct)
  case Nil
  then show ?case by simp
next
  case (Cons a adapters ports yields)
  show ?case
  proof (cases "adapter_attributes_result a")
    case (Inl e)
    then have "e = NotImplementedError" "ports = []"
      using Cons.hyps(1) by (simp_all add: adapter_yields_def)
    then show ?thesis using Inl Cons.IH by simp
  next
    case (Inr adapter_attributes)
    then have "map (\<lambda>i. get_local_port cfg adapter_attributes (port_envs a i))
                 [0..<NumberOfPorts adapter_attributes] = map Inr ports"
      using Cons.hyps(1) by (simp add: adapter_yields_def)
    then have "iter_adapter_ports cfg adapter_attributes (port_envs a)
                 [0..<NumberOfPorts adapter_attributes] = (ports, None)"
      by (rule iter_adapter_ports_all)
    then show ?thesis using Inr Cons.IH by simp
  qed
qed

text \<open>
  C9. An adapter whose attribute fetch raises \<open>NotImplementedError\<close> is
  skipped and nothing else changes: the walk over any list of adapters that
  contains it yields the ports, and ends, exactly as the walk over the list
  without it. In a scan where every adapter either raises
  \<open>NotImplementedError\<close> on its attributes or reports them and has all its
  ports fetched, the walk ends without an exception and yields, in order, the
  local port of every port index of every adapter that reports attributes.
  Any other exception of the attribute fetch ends the walk.
\<close>

theorem iter_ports_skips_unsupported_adapter:
  "(adapter_attributes_result a = Inl NotImplementedError \<longrightarrow>
      p_iter_ports cfg (before @ a # rest) = p_iter_ports cfg (before @ rest))
   \<and> (list_all2 (adapter_yields cfg) adapters yields \<longrightarrow>
      p_iter_ports cfg adapters = (concat yields, None))
   \<and> (adapter_attributes_result a = Inl e \<and> e \<noteq> NotImplementedError \<longrightarrow>
      p_iter_ports cfg (a # rest) = ([], Some e))"
proof (intro conjI impI)
  assume u: "adapter_attributes_result a = Inl NotImplementedError"
  show "p_iter_ports cfg (before @ a # rest) = p_iter_ports cfg (before @ rest)"
  proof (induction before)
    case Nil
    show ?case using u by simp
  next
    case (Cons b before)
    show ?case
    proof (cases "adapter_attributes_result b")
      case (Inl e)
      then show ?thesis using Cons.IH by simp
    next
      case (Inr adapter_attributes)
      obtain ports r where p: "iter_adapter_ports cfg adapter_attributes (port_envs b)
                                 [0..<NumberOfPorts adapter_attributes] = (ports, r)"
        by (cases "iter_adapter_ports cfg adapter_attributes (port_envs b)
                     [0..<NumberOfPorts adapter_attributes]")
      show ?thesis using Inr p Cons.IH by (cases r) simp_all
    qed
  qed
next
  assume "list_all2 (adapter_yields cfg) adapters yields"
  then show "p_iter_ports cfg adapters = (concat yields, None)"
    by (rule p_iter_ports_yields)
next
  assume "adapter_attributes_result a = Inl e \<and> e \<noteq> NotImplementedError"
  then show "p_iter_ports cfg (a # rest) = ([], Some e)" by simp
qed

theorem iter_ports_skips_unsupported_adapter_witness:
  "\<exists>lp. get_local_port (example_config ''windows'') example_adapter_attributes example_port_env
          = Inr lp
       \<and> p_iter_ports (example_config ''windows'') example_adapters = ([lp, lp], None)
       \<and> p_iter_ports (example_config ''windows'')
            [example_unsupported_adapter, example_supported_adapter] = ([lp], None)
       \<and> p_iter_ports (example_config ''windows'')
            [example_failing_adapter, example_supported_adapter] = ([], Some (RuntimeError 1))"
proof -
  let ?cfg = "example_config ''windows''"
  obtain lp where lp:
    "get_local_port ?cfg example_adapter_attributes example_port_env = Inr lp"
    using example_local_port [OF example_dict_windows] by blast
  have n: "[0..<NumberOfPorts example_adapter_attributes] = [0]"
    by (simp add: example_adapter_attributes_def)
  have s: "adapter_yields ?cfg example_supported_adapter [lp]"
    by (simp add: adapter_yields_def example_supported_adapter_def n lp)
  have u: "adapter_yields ?cfg example_unsupported_adapter []"
    by (simp add: adapter_yields_def example_unsupported_adapter_def)
  have y: "list_all2 (adapter_yields ?cfg) example_adapters [[lp], [], [lp]]"
    using s u by (simp add: example_adapters_def)
  have a: "p_iter_ports ?cfg example_adapters = ([lp, lp], None)"
    using iter_ports_skips_unsupported_adapter
            [of example_unsupported_adapter ?cfg "[]" "[]" example_adapters "[[lp], [], [lp]]"] y
    by simp
  have "p_iter_ports ?cfg [example_supported_adapter] = ([lp], None)"
    using iter_ports_skips_unsupported_adapter
            [of example_unsupported_adapter ?cfg "[]" "[]" "[example_supported_adapter]" "[[lp]]"] s
    by simp
  moreover have "adapter_attributes_result example_unsupported_adapter = Inl NotImplementedError"
    by (simp add: example_unsupported_adapter_def)
  ultimately have b: "p_iter_ports ?cfg [example_unsupported_adapter, example_supported_adapter]
                      = ([lp], None)"
    using iter_ports_skips_unsupported_adapter
            [of example_unsupported_adapter ?cfg "[]" "[example_supported_adapter]"]
    by simp
  have "adapter_attributes_result example_failing_adapter = Inl (RuntimeError 1)
        \<and> RuntimeError 1 \<noteq> NotImplementedError"
    by (simp add: example_failing_adapter_def)
  then have c: "p_iter_ports ?cfg [example_failing_adapter, example_supported_adapter]
                = ([], Some (RuntimeError 1))"
    using iter_ports_skips_unsupported_adapter
            [of example_failing_adapter ?cfg "[]" "[example_supported_adapter]" "[]" "[]"
                "RuntimeError 1"]
    by blast
  show ?thesis by (rule exI [of _ lp]) (intro conjI lp a b c)
qed

section \<open>The statistics merger\<close>

lemma merge_absent:
  "\<exists>ps'. merge_statistics names ps None None = Inr ps' \<and>
         (\<forall>n. map_of ps' n = (if n \<in> set names then Some (-1) else map_of ps n))"
proof (induction names arbitrary: ps)
  case Nil
  then show ?case by simp
next
  case (Cons name names)
  let ?ps1 = "dict_setitem name (-1) ps"
  obtain ps' where r: "merge_statistics names ?ps1 None None = Inr ps'"
    and v: "\<forall>n. map_of ps' n = (if n \<in> set names then Some (-1) else map_of ?ps1 n)"
    using Cons.IH [of ?ps1] by blast
  have "merge_statistics (name # names) ps None None = Inr ps'"
    using r by (simp add: and_then_def merge_hba_fcp4_stat_def merge_hba_port_stat_def)
  moreover have "\<forall>n. map_of ps' n = (if n \<in> set (name # names) then Some (-1) else map_of ps n)"
    using v by (simp add: map_of_dict_setitem)
  ultimately show ?case by blast
qed

lemma hba_port_stat_name_spec: "hba_port_stat_name name = spec_link_name name"
  by (simp add: hba_port_stat_name_def spec_link_name_def spec_override_def)

lemma merge_link_only:
  assumes "\<forall>n\<in>set names. \<not> startswith n ''fcp_'' \<longrightarrow> spec_link_name n \<in> fst ` set link"
  shows "\<exists>ps'. merge_statistics names ps (Some link) None = Inr ps' \<and>
         (\<forall>n. map_of ps' n =
               (if n \<in> set names
                then (if startswith n ''fcp_'' then Some (-1) else map_of link (spec_link_name n))
                else map_of ps n))"
  using assms
proof (induction names arbitrary: ps)
  case Nil
  then show ?case by simp
next
  case (Cons name names)
  let ?val = "\<lambda>n. if startswith n ''fcp_'' then Some (-1) else map_of link (spec_link_name n)"
  obtain v where v: "?val name = Some v"
  proof (cases "startswith name ''fcp_''")
    case True
    then show ?thesis using that by simp
  next
    case False
    then have "spec_link_name name \<in> fst ` set link" using Cons.prems by simp
    then obtain w where "map_of link (spec_link_name name) = Some w"
      by (metis map_of_eq_None_iff not_Some_eq)
    then show ?thesis using that False by simp
  qed
  let ?ps1 = "dict_setitem name v ps"
  have step: "(if startswith name ''fcp_''
               then merge_hba_fcp4_stat None ps name
               else merge_hba_port_stat (Some link) ps name) = Inr ?ps1"
    using v by (auto simp: merge_hba_fcp4_stat_def merge_hba_port_stat_def getattr_stat_def
        and_then_def hba_port_stat_name_spec split: if_splits)
  obtain ps' where r: "merge_statistics names ?ps1 (Some link) None = Inr ps'"
    and w: "\<forall>n. map_of ps' n = (if n \<in> set names then ?val n else map_of ?ps1 n)"
    using Cons.IH [of ?ps1] Cons.prems by auto
  have "merge_statistics (name # names) ps (Some link) None = Inr ps'"
    using r step by (simp add: and_then_def)
  moreover have "\<forall>n. map_of ps' n = (if n \<in> set (name # names) then ?val n else map_of ps n)"
    using w v by (simp add: map_of_dict_setitem)
  ultimately show ?case by blast
qed

lemma py_replace_absent: "\<not> py_in old s \<Longrightarrow> py_replace old new s = s"
  by (induction s) auto

lemma py_replace_prefix:
  "old \<noteq> [] \<Longrightarrow> py_replace old new (old @ rest) = new @ py_replace old new rest"
  by (cases old) simp_all

lemma fcp_name_spec:
  assumes "startswith name ''fcp_''" "\<not> py_in ''fcp_'' (drop (length ''fcp_'') name)"
  shows "hba_fcp4_stat_name name = spec_fcp_name name"
proof -
  have n: "name = ''fcp_'' @ drop (length ''fcp_'') name"
    using assms(1) unfolding startswith_def by (metis append_take_drop_id)
  have "py_replace ''fcp_'' [] name = py_replace ''fcp_'' [] (''fcp_'' @ drop (length ''fcp_'') name)"
    using n by simp
  also have "\<dots> = py_replace ''fcp_'' [] (drop (length ''fcp_'') name)"
    by (subst py_replace_prefix) simp_all
  also have "\<dots> = drop (length ''fcp_'') name"
    using assms(2) by (rule py_replace_absent)
  finally show ?thesis by (simp add: hba_fcp4_stat_name_def spec_fcp_name_def)
qed

text \<open>
  C5. With both source records absent the merger succeeds and every canonical
  counter is \<open>-1\<close>. With only the link-level record present, and a field in
  it for every counter that is not FCP-prefixed, the merger succeeds, every
  \<open>fcp_\<close> counter is \<open>-1\<close> and every other counter is the value of the
  link-level field whose name is given by the rule of the specification
  (overrides, then capitalize each word that is not all upper case). The
  field name computed for a link-level counter is that rule's, and the one
  computed for an \<open>fcp_\<close> counter is the prefix-stripped, capitalized name
  whenever \<open>fcp_\<close> occurs in the name as its prefix only.
\<close>

theorem merge_statistics_absent_records:
  "(\<exists>ps'. merge_statistics names ps None None = Inr ps' \<and>
          (\<forall>n\<in>set names. map_of ps' n = Some (-1)))
   \<and> ((\<forall>n\<in>set names. \<not> startswith n ''fcp_'' \<longrightarrow> spec_link_name n \<in> fst ` set link) \<longrightarrow>
        (\<exists>ps'. merge_statistics names ps (Some link) None = Inr ps' \<and>
           (\<forall>n\<in>set names.
              map_of ps' n =
                (if startswith n ''fcp_'' then Some (-1) else map_of link (spec_link_name n)))))
   \<and> hba_port_stat_name name = spec_link_name name
   \<and> (startswith name ''fcp_'' \<and> \<not> py_in ''fcp_'' (drop (length ''fcp_'') name) \<longrightarrow>
        hba_fcp4_stat_name name = spec_fcp_name name)"
proof (intro conjI impI)
  show "\<exists>ps'. merge_statistics names ps None None = Inr ps' \<and>
          (\<forall>n\<in>set names. map_of ps' n = Some (-1))"
    using merge_absent [of names ps] by auto
next
  assume "\<forall>n\<in>set names. \<not> startswith n ''fcp_'' \<longrightarrow> spec_link_name n \<in> fst ` set link"
  then show "\<exists>ps'. merge_statistics names ps (Some link) None = Inr ps' \<and>
           (\<forall>n\<in>set names.
              map_of ps' n =
                (if startswith n ''fcp_'' then Some (-1) else map_of link (spec_link_name n)))"
    using merge_link_only [of names link ps] by auto
next
  show "hba_port_stat_name name = spec_link_name name"
    by (rule hba_port_stat_name_spec)
next
  assume "startswith name ''fcp_'' \<and> \<not> py_in ''fcp_'' (drop (length ''fcp_'') name)"
  then show "hba_fcp4_stat_name name = spec_fcp_name name"
    using fcp_name_spec by blast
qed

lemma example_names:
  "spec_link_name ''rx_frames'' = ''RxFrames''"
  "spec_link_name ''nos_count'' = ''NOSCount''"
  "spec_fcp_name ''fcp_input_requests'' = ''InputRequests''"
  "startswith ''fcp_input_requests'' ''fcp_''"
  "\<not> startswith ''rx_frames'' ''fcp_''"
  "\<not> startswith ''nos_count'' ''fcp_''"
  "\<not> py_in ''fcp_'' (drop (length ''fcp_'') ''fcp_input_requests'')"
  by code_simp+

theorem merge_statistics_absent_records_witness:
  "(\<exists>ps'. merge_statistics [''rx_frames'', ''fcp_input_requests'', ''nos_count''] [] None None
            = Inr ps'
         \<and> map_of ps' ''rx_frames'' = Some (-1)
         \<and> map_of ps' ''fcp_input_requests'' = Some (-1)
         \<and> map_of ps' ''nos_count'' = Some (-1))
   \<and> (\<exists>ps'. merge_statistics [''rx_frames'', ''fcp_input_requests'', ''nos_count''] []
              (Some [(''RxFrames'', 5), (''NOSCount'', 7)]) None = Inr ps'
         \<and> map_of ps' ''rx_frames'' = Some 5
         \<and> map_of ps' ''fcp_input_requests'' = Some (-1)
         \<and> map_of ps' ''nos_count'' = Some 7)
   \<and> hba_port_stat_name ''nos_count'' = ''NOSCount''
   \<and> hba_fcp4_stat_name ''fcp_input_requests'' = ''InputRequests''"
proof -
  let ?names = "[''rx_frames'', ''fcp_input_requests'', ''nos_count'']"
  let ?link = "[(''RxFrames'', 5 :: int), (''NOSCount'', 7)]"
  note t = merge_statistics_absent_records [of ?names "[]" ?link "''nos_count''"]
  note u = merge_statistics_absent_records [of ?names "[]" ?link "''fcp_input_requests''"]
  have h: "\<forall>n\<in>set ?names. \<not> startswith n ''fcp_'' \<longrightarrow> spec_link_name n \<in> fst ` set ?link"
    by (simp add: example_names)
  obtain ps1 where ps1: "merge_statistics ?names [] None None = Inr ps1"
    "\<forall>n\<in>set ?names. map_of ps1 n = Some (-1)"
    using t by blast
  have A: "\<exists>ps'. merge_statistics ?names [] None None = Inr ps'
         \<and> map_of ps' ''rx_frames'' = Some (-1)
         \<and> map_of ps' ''fcp_input_requests'' = Some (-1)
         \<and> map_of ps' ''nos_count'' = Some (-1)"
    using ps1 by (intro exI [of _ ps1]) simp
  obtain ps2 where ps2: "merge_statistics ?names [] (Some ?link) None = Inr ps2"
    "\<forall>n\<in>set ?names. map_of ps2 n =
        (if startswith n ''fcp_'' then Some (-1) else map_of ?link (spec_link_name n))"
    using t h by blast
  have B: "\<exists>ps'. merge_statistics ?names [] (Some ?link) None = Inr ps'
         \<and> map_of ps' ''rx_frames'' = Some 5
         \<and> map_of ps' ''fcp_input_requests'' = Some (-1)
         \<and> map_of ps' ''nos_count'' = Some 7"
    using ps2 by (intro exI [of _ ps2]) (simp add: example_names)
  have C: "hba_port_stat_name ''nos_count'' = ''NOSCount''"
    using t by (simp add: example_names)
  have D: "hba_fcp4_stat_name ''fcp_input_requests'' = ''InputRequests''"
    using u by (simp add: example_names)
  show ?thesis by (intro conjI A B C D)
qed

section \<open>World Wide Names\<close>

lemma length_hexlify: "length (hexlify bs) = 2 * length bs"
  by (induction bs) (simp_all add: hexlify_def)

lemma hex_val_nth: "k < 16 \<Longrightarrow> hex_val (hex_digits ! k) = k"
proof -
  have "\<forall>k\<in>set [0..<16]. hex_val (hex_digits ! k) = k"
    by (simp add: upt_rec hex_val_def hex_digits_def)
  then show "k < 16 \<Longrightarrow> hex_val (hex_digits ! k) = k" by simp
qed

lemma hexlify_chars: "list_all (\<lambda>b. b < 256) bs \<Longrightarrow> list_all (\<lambda>c. c \<in> set hex_digits) (hexlify bs)"
proof (induction bs)
  case Nil
  then show ?case by (simp add: hexlify_def)
next
  case (Cons b bs)
  have l: "length hex_digits = 16" by (simp add: hex_digits_def)
  have "b div 16 < 16" "b mod 16 < 16" using Cons.prems by auto
  then have "hex_digits ! (b div 16) \<in> set hex_digits" "hex_digits ! (b mod 16) \<in> set hex_digits"
    using l by (simp_all only: nth_mem)
  then show ?case using Cons by (simp add: hexlify_def)
qed

lemma unhexlify_hexlify: "list_all (\<lambda>b. b < 256) bs \<Longrightarrow> unhexlify (hexlify bs) = bs"
proof (induction bs)
  case Nil
  then show ?case by (simp add: hexlify_def)
next
  case (Cons b bs)
  have "b div 16 < 16" "b mod 16 < 16" using Cons.prems by auto
  then have "16 * hex_val (hex_digits ! (b div 16)) + hex_val (hex_digits ! (b mod 16)) = b"
    by (simp add: hex_val_nth)
  then show ?case using Cons by (simp add: hexlify_def)
qed

text \<open>
  The part of the WWN decoding that holds: eight bytes give the sixteen
  hexadecimal digits of exactly those bytes, high nibble first, under either
  Python version, and reading the digits back gives the bytes.
\<close>

lemma translate_wwn_eight_bytes:
  assumes "length xs = 8" "list_all (\<lambda>x. 0 \<le> x \<and> x < 256) xs"
  shows "translate_wwn py3 (RawList xs) = Inr (WWN (hexlify (map nat xs)))
         \<and> length (hexlify (map nat xs)) = 16
         \<and> unhexlify (hexlify (map nat xs)) = map nat xs"
proof -
  have b: "list_all (\<lambda>b. b < 256) (map nat xs)"
    using assms(2) by (auto simp: list_all_iff)
  have l: "length (hexlify (map nat xs)) = 16"
    using assms(1) by (simp add: length_hexlify)
  have n: "map nat xs \<noteq> []" using assms(1) by auto
  have ne: "hexlify (map nat xs) \<noteq> []" using l by auto
  have "translate_wwn py3 (RawList xs) = Inr (WWN (hexlify (map nat xs)))"
    using assms(2) n l ne hexlify_chars [OF b]
    by (simp add: translate_wwn_def ne_empty_str_def WWN_init_def)
  then show ?thesis using l unhexlify_hexlify [OF b] by simp
qed

text \<open>
  C6, at the inputs where the code departs from it. An absent source
  (\<open>None\<close>) raises \<open>TypeError\<close> under both Python versions, also through
  \<open>get_port_object\<close> for a port record without \<open>FabricName\<close>; an empty source
  gives the all-zero WWN under Python 2 only, and under Python 3 the empty
  string reaches the \<open>WWN\<close> constructor, which rejects it.
\<close>

theorem translate_wwn_absent_source_raises:
  "translate_wwn False RawNone = Inl TypeError
   \<and> translate_wwn True RawNone = Inl TypeError
   \<and> get_port_object std_headers True None
        ((example_port_attributes [0x50, 0, 0, 0, 0, 0, 0, 0x0A] 0x010200 2)
           \<lparr> FabricName := RawNone \<rparr>) = Inl TypeError
   \<and> translate_wwn False (RawList []) = Inr (WWN ''0000000000000000'')
   \<and> translate_wwn True (RawList []) = Inl InvalidWWN"
proof (intro conjI)
  show "translate_wwn False RawNone = Inl TypeError"
    by (simp add: translate_wwn_def)
  show "translate_wwn True RawNone = Inl TypeError"
    by (simp add: translate_wwn_def)
  show "get_port_object std_headers True None
        ((example_port_attributes [0x50, 0, 0, 0, 0, 0, 0, 0x0A] 0x010200 2)
           \<lparr> FabricName := RawNone \<rparr>) = Inl TypeError"
    by code_simp
  show "translate_wwn False (RawList []) = Inr (WWN ''0000000000000000'')"
    by code_simp
  show "translate_wwn True (RawList []) = Inl InvalidWWN"
    by code_simp
qed

end
